theory Spec2Isabelle
  imports Complex_Main
begin

section \<open>The line analyzer: functions/anlyze\_line\_image.go\<close>

text \<open>
  The Cloud Function \<open>AnalyzeLineImage\<close> is triggered by an uploaded image. It derives
  the shop and the observation time from the object name, asks a vision service for
  labels and faces, and inserts one \<open>lineObservation\<close> row and one
  \<open>waitingCustomerMeta\<close> row per face into two BigQuery tables.

  Go strings are byte sequences; \<^typ>\<open>string\<close> is a list of bytes as well.
\<close>

subsection \<open>Errors and results\<close>

text \<open>
  \<open>strconv\<close> reports a \<open>*NumError{Func, Num, Err}\<close> whose \<open>Err\<close> is \<open>ErrSyntax\<close> or
  \<open>ErrRange\<close>. The external clients report errors the program never inspects
  (\<open>ExternalError\<close>). \<open>errors.Wrap(err, msg)\<close> keeps the cause and adds a message.
\<close>

datatype num_err = ErrSyntax | ErrRange

datatype error =
    NumError string string num_err
  | ExternalError string
  | Wrap error string

text \<open>
  A Go function returns, panics (index out of range, nil dereference) or ends the
  process (\<open>log.Fatal\<close> prints its argument and calls \<open>os.Exit(1)\<close>).
\<close>

datatype 'a result = Panics string | Exits string | Returns 'a

subsection \<open>path/filepath on a Unix target\<close>

definition IsPathSeparator :: "char \<Rightarrow> bool" where
  "IsPathSeparator c = (c = CHR ''/'')"

text \<open>
  \<^verbatim>\<open>
  func Ext(path string) string {
      for i := len(path) - 1; i >= 0 && !os.IsPathSeparator(path[i]); i-- {
          if path[i] == '.' { return path[i:] }
      }
      return ""
  }
  \<close>
  The second argument of \<open>Ext_loop\<close> is \<open>i + 1\<close>.
\<close>

fun Ext_loop :: "string \<Rightarrow> nat \<Rightarrow> string" where
  "Ext_loop path 0 = []"
| "Ext_loop path (Suc i) =
     (if IsPathSeparator (path ! i) then []
      else if path ! i = CHR ''.'' then drop i path
      else Ext_loop path i)"

definition Ext :: "string \<Rightarrow> string" where
  "Ext path = Ext_loop path (length path)"

text \<open>
  \<^verbatim>\<open>
  func Base(path string) string {
      if path == "" { return "." }
      for len(path) > 0 && os.IsPathSeparator(path[len(path)-1]) {
          path = path[0 : len(path)-1]
      }
      path = path[len(VolumeName(path)):]      // "" on Unix
      i := len(path) - 1
      for i >= 0 && !os.IsPathSeparator(path[i]) { i-- }
      if i >= 0 { path = path[i+1:] }
      if path == "" { return string(Separator) }
      return path
  }
  \<close>
\<close>

function stripTrailingSeparators :: "string \<Rightarrow> string" where
  "stripTrailingSeparators path =
     (if path \<noteq> [] \<and> IsPathSeparator (last path)
      then stripTrailingSeparators (butlast path) else path)"
  by pat_completeness auto
termination
  by (relation "measure length") auto

declare stripTrailingSeparators.simps [simp del]

text \<open>The second argument and the result of \<open>lastElementStart\<close> are \<open>i + 1\<close>.\<close>

fun lastElementStart :: "string \<Rightarrow> nat \<Rightarrow> nat" where
  "lastElementStart path 0 = 0"
| "lastElementStart path (Suc i) =
     (if IsPathSeparator (path ! i) then Suc i else lastElementStart path i)"

definition Base :: "string \<Rightarrow> string" where
  "Base path =
     (if path = [] then ''.''
      else let p1 = stripTrailingSeparators path;
               p2 = drop (lastElementStart p1 (length p1)) p1
           in if p2 = [] then ''/'' else p2)"

subsection \<open>strings.Split with a one-byte separator\<close>

text \<open>
  \<open>strings.Split(s, sep)\<close> cuts at every occurrence of \<open>sep\<close>: it looks for the first
  occurrence, appends what is before it, goes on behind it, and appends the rest at the
  end. The program's separator is the one byte \<open>"_"\<close>.
\<close>

function Split :: "string \<Rightarrow> char \<Rightarrow> string list" where
  "Split s sep =
     (let tok = takeWhile (\<lambda>c. c \<noteq> sep) s; rest = dropWhile (\<lambda>c. c \<noteq> sep) s
      in if rest = [] then [tok] else tok # Split (tl rest) sep)"
  by pat_completeness auto
termination
proof (relation "measure (\<lambda>(s, sep). length s)")
  show "wf (measure (\<lambda>(s, sep). length s))" by simp
next
  fix s :: string and sep x xa
  assume "xa = dropWhile (\<lambda>c. c \<noteq> sep) s" and "xa \<noteq> []"
  then have "length (tl xa) < length xa" by (cases xa) auto
  moreover have "length xa \<le> length s"
    using \<open>xa = dropWhile (\<lambda>c. c \<noteq> sep) s\<close> by (simp add: length_dropWhile_le)
  ultimately show "((tl xa, sep), s, sep) \<in> measure (\<lambda>(s, sep). length s)" by simp
qed

declare Split.simps [simp del]

subsection \<open>strconv.ParseInt(s, 10, 64)\<close>

text \<open>
  The \<open>uint64\<close> and \<open>int64\<close> values of \<open>strconv\<close> are integers here, with the wrap-around
  of \<open>uint64\<close> arithmetic written out.
\<close>

definition maxUint64 :: int where
  "maxUint64 = 2 ^ 64 - 1"

definition isDigit :: "char \<Rightarrow> bool" where
  "isDigit c = (48 \<le> (of_char c :: nat) \<and> (of_char c :: nat) \<le> 57)"

definition digitVal :: "char \<Rightarrow> int" where
  "digitVal c = int (of_char c) - 48"

text \<open>
  \<open>ParseUint\<close> in base 10: a byte that is no decimal digit is a syntax error (letters
  are digits of a larger base, the underscore is allowed in base 0 only). The
  multiplication and the addition wrap, and the source tests for it.
  \<^verbatim>\<open>
      if n >= cutoff { return maxVal, rangeError(fnParseUint, s0) }   // cutoff = maxUint64/10 + 1
      n *= uint64(base)
      n1 := n + uint64(d)
      if n1 < n || n1 > maxVal { return maxVal, rangeError(fnParseUint, s0) }
      n = n1
  \<close>
\<close>

fun ParseUint_loop :: "string \<Rightarrow> int \<Rightarrow> string \<Rightarrow> int \<times> error option" where
  "ParseUint_loop s0 n [] = (n, None)"
| "ParseUint_loop s0 n (c # cs) =
     (if \<not> isDigit c then (0, Some (NumError ''ParseUint'' s0 ErrSyntax))
      else if n \<ge> maxUint64 div 10 + 1 then (maxUint64, Some (NumError ''ParseUint'' s0 ErrRange))
      else let n' = (n * 10) mod 2 ^ 64;
               n1 = (n' + digitVal c) mod 2 ^ 64
           in if n1 < n' \<or> n1 > maxUint64 then (maxUint64, Some (NumError ''ParseUint'' s0 ErrRange))
              else ParseUint_loop s0 n1 cs)"

definition ParseUint :: "string \<Rightarrow> int \<times> error option" where
  "ParseUint s =
     (if s = [] then (0, Some (NumError ''ParseUint'' s ErrSyntax))
      else ParseUint_loop s 0 s)"

text \<open>
  \<^verbatim>\<open>
  func ParseInt(s string, base int, bitSize int) (i int64, err error) {
      if s == "" { return 0, syntaxError(fnParseInt, s) }
      s0 := s
      neg := false
      if s[0] == '+' { s = s[1:] } else if s[0] == '-' { neg = true; s = s[1:] }
      un, err = ParseUint(s, base, bitSize)
      if err != nil && err.(*NumError).Err != ErrRange {
          err.(*NumError).Func = fnParseInt
          err.(*NumError).Num = s0
          return 0, err
      }
      cutoff := uint64(1 << uint(bitSize-1))
      if !neg && un >= cutoff { return int64(cutoff - 1), rangeError(fnParseInt, s0) }
      if neg && un > cutoff { return -int64(cutoff), rangeError(fnParseInt, s0) }
      n := int64(un)
      if neg { n = -n }
      return n, nil
  }
  \<close>
\<close>

fun isRangeError :: "error option \<Rightarrow> bool" where
  "isRangeError (Some (NumError f n ErrRange)) = True"
| "isRangeError e = False"

definition ParseInt :: "string \<Rightarrow> int \<times> error option" where
  "ParseInt s0 =
     (if s0 = [] then (0, Some (NumError ''ParseInt'' s0 ErrSyntax))
      else let neg = (hd s0 = CHR ''-'');
               s = (if hd s0 = CHR ''+'' \<or> hd s0 = CHR ''-'' then tl s0 else s0);
               (un, err) = ParseUint s
           in if err \<noteq> None \<and> \<not> isRangeError err
              then (0, Some (NumError ''ParseInt'' s0 ErrSyntax))
              else if \<not> neg \<and> un \<ge> 2 ^ 63
              then (2 ^ 63 - 1, Some (NumError ''ParseInt'' s0 ErrRange))
              else if neg \<and> un > 2 ^ 63
              then (- (2 ^ 63), Some (NumError ''ParseInt'' s0 ErrRange))
              else (if neg then - un else un, None))"

subsection \<open>getMetaFromObjName\<close>

text \<open>
  \<open>time.Time{}\<close> is the zero time; \<open>time.Unix(sec, 0).Local()\<close> is the instant \<open>sec\<close>
  seconds after the epoch, shown in the local zone; \<open>time.Now()\<close> is the reading of
  the clock.
\<close>

datatype time = ZeroTime | UnixLocal int | Clock int

text \<open>
  \<^verbatim>\<open>
  func getMetaFromObjName(objName string) (shopID string, observedAt time.Time, err error) {
      name := filepath.Base(objName[:len(objName)-len(filepath.Ext(objName))])
      objMetas := strings.Split(name, "_")
      shopID = objMetas[0]
      unixTime, err := strconv.ParseInt(objMetas[1], 10, 64)
      if err != nil { return shopID, time.Time{}, err }
      return shopID, time.Unix(unixTime, 0).Local(), err
  }
  \<close>
  Indexing a slice out of range panics.
\<close>

definition getMetaFromObjName :: "string \<Rightarrow> (string \<times> time \<times> error option) result" where
  "getMetaFromObjName objName =
     (let name = Base (take (length objName - length (Ext objName)) objName);
          objMetas = Split name (CHR ''_'')
      in case objMetas of
           [] \<Rightarrow> Panics ''index out of range [0] with length 0''
         | [shopID] \<Rightarrow> Panics ''index out of range [1] with length 1''
         | shopID # tok # _ \<Rightarrow>
             (case ParseInt tok of
                (unixTime, Some err) \<Rightarrow> Returns (shopID, ZeroTime, Some err)
              | (unixTime, None) \<Rightarrow> Returns (shopID, UnixLocal unixTime, None)))"

subsection \<open>Records of the program\<close>

record gcsEvent =
  Bucket :: string
  ObjectName :: string
  ContentType :: string

record lineObservation =
  ID :: string
  ShopID :: string
  WaitingPeopleNum :: int
  ObservedAt :: time
  CreatedAt :: time

text \<open>
  A \<open>float64\<close> that the service's JSON decoder produced is finite, and the program only
  compares it with the constant \<open>0.5\<close>, which is a \<open>float64\<close> exactly, or copies it.
  Finite \<open>float64\<close> values are rational numbers and their order is the order of the
  numbers, so they are modelled as \<^typ>\<open>real\<close>.
\<close>

type_synonym float64 = real

record waitingCustomerMeta =
  LineObservationID :: string
  Gender :: string
  GenderConfidence :: float64
  LowestAge :: int
  HighestAge :: int
  Confidence :: float64

subsection \<open>Records of the Rekognition client\<close>

text \<open>
  The fields of the SDK's result structs are pointers (\<open>*string\<close>, \<open>*float64\<close>,
  \<open>*int64\<close>, \<open>*Gender\<close>, \<open>*AgeRange\<close>): a field that the response does not carry is
  \<open>nil\<close>, here \<open>None\<close>, and dereferencing it panics. The slices of a result hold the
  structs the decoder filled in. The program never looks into an \<open>Instance\<close>; it only
  counts them.
\<close>

datatype Instance = Instance nat

record Label =
  Label_Confidence :: "float64 option"
  Label_Instances :: "Instance list"
  Label_Name :: "string option"

record FaceGender =
  Gender_Value :: "string option"
  Gender_Confidence :: "float64 option"

record AgeRange =
  AgeRange_Low :: "int option"
  AgeRange_High :: "int option"

record FaceDetail =
  FaceDetail_Gender :: "FaceGender option"
  FaceDetail_AgeRange :: "AgeRange option"
  FaceDetail_Confidence :: "float64 option"

subsection \<open>The world outside the function\<close>

text \<open>
  Every call that leaves the program is answered by the world \<open>w\<close>: whether a client
  can be made, the environment, the identifier \<open>xid.New()\<close> hands out, the clock,
  whether the object can be opened and what reading it to the end yields, what the
  vision service answers for an image, and whether the analytics store accepts rows.
\<close>

type_synonym reader = "error + string"

record world =
  newGcsClient :: "error option"
  getenv :: "string \<Rightarrow> string"
  newBqClient :: "string \<Rightarrow> error option"
  newXid :: string
  clock :: int
  newReader :: "string \<Rightarrow> string \<Rightarrow> error + reader"
  newSession :: "error option"
  detectLabels :: "string \<Rightarrow> error + Label list"
  detectFaces :: "string \<Rightarrow> error + FaceDetail list"
  insertObservations :: "lineObservation list \<Rightarrow> error option"
  insertMetas :: "waitingCustomerMeta list \<Rightarrow> error option"

text \<open>
  The steps of an invocation, in the order in which it takes them. The two store writes
  carry the rows handed to \<open>Put\<close>.
\<close>

datatype step =
    AcquireGcsClient
  | ReadEnv string
  | AcquireBqClient
  | GenerateID
  | ParseMeta
  | OpenReader
  | NewAwsSession
  | ReadBytes
  | DetectLabels
  | DetectFaces
  | PutObservation "lineObservation list"
  | PutMetas "waitingCustomerMeta list"

text \<open>
  Modelled from the spec: \<open>Inserter.Put\<close> of the analytics-store client
  (\<open>cloud.google.com/go/bigquery\<close>) is a dependency whose code is not among the
  sources of the repository. The spec's store writer appends
  the rows to the table or reports a store error, and "writing an empty meta collection
  must be a no-op success, not an error": no rows, no request, no error.
\<close>

definition Put :: "('row list \<Rightarrow> error option) \<Rightarrow> 'row list \<Rightarrow> error option" where
  "Put insertAll rows = (if rows = [] then None else insertAll rows)"

subsection \<open>mustEnv\<close>

text \<open>
  \<^verbatim>\<open>
  func mustEnv(key string) string {
      env := os.Getenv(key)
      if env == "" { log.Fatal(errors.Errorf("env variable with key=%s is not found", key)) }
      return env
  }
  \<close>
\<close>

definition mustEnv :: "world \<Rightarrow> string \<Rightarrow> string result" where
  "mustEnv w key =
     (let env = getenv w key
      in if env = [] then Exits (''env variable with key='' @ key @ '' is not found'')
         else Returns env)"

subsection \<open>detectWaitingCustomersFromImg\<close>

text \<open>
  \<^verbatim>\<open>
  for _, label := range detectLabelOutput.Labels {
      if *label.Confidence < 0.5 { continue }
      if *label.Name == "Person" { waitingPeopleNum = len(label.Instances) }
  }
  \<close>
  The first argument is \<open>waitingPeopleNum\<close>, which starts as 0.
\<close>

fun countPeople :: "int \<Rightarrow> Label list \<Rightarrow> int result" where
  "countPeople waitingPeopleNum [] = Returns waitingPeopleNum"
| "countPeople waitingPeopleNum (label # labels) =
     (case Label_Confidence label of
        None \<Rightarrow> Panics ''nil pointer dereference''
      | Some c \<Rightarrow>
          if c < 0.5 then countPeople waitingPeopleNum labels
          else (case Label_Name label of
                  None \<Rightarrow> Panics ''nil pointer dereference''
                | Some name \<Rightarrow>
                    if name = ''Person''
                    then countPeople (int (length (Label_Instances label))) labels
                    else countPeople waitingPeopleNum labels))"

text \<open>
  \<^verbatim>\<open>
  var customers []*waitingCustomerMeta
  for _, faceDetail := range detectFacesOutput.FaceDetails {
      cus := &waitingCustomerMeta{
          LineObservationID: lineObservationID,
          Gender:            *faceDetail.Gender.Value,
          GenderConfidence:  *faceDetail.Gender.Confidence,
          LowestAge:         *faceDetail.AgeRange.Low,
          HighestAge:        *faceDetail.AgeRange.High,
          Confidence:        *faceDetail.Confidence,
      }
      customers = append(customers, cus)
  }
  \<close>
\<close>

definition newCustomer :: "string \<Rightarrow> FaceDetail \<Rightarrow> waitingCustomerMeta option" where
  "newCustomer lineObservationID faceDetail =
     (case FaceDetail_Gender faceDetail of None \<Rightarrow> None | Some g \<Rightarrow>
     (case Gender_Value g of None \<Rightarrow> None | Some gv \<Rightarrow>
     (case Gender_Confidence g of None \<Rightarrow> None | Some gc \<Rightarrow>
     (case FaceDetail_AgeRange faceDetail of None \<Rightarrow> None | Some a \<Rightarrow>
     (case AgeRange_Low a of None \<Rightarrow> None | Some low \<Rightarrow>
     (case AgeRange_High a of None \<Rightarrow> None | Some high \<Rightarrow>
     (case FaceDetail_Confidence faceDetail of None \<Rightarrow> None | Some c \<Rightarrow>
        Some \<lparr>LineObservationID = lineObservationID, Gender = gv, GenderConfidence = gc,
              LowestAge = low, HighestAge = high, Confidence = c\<rparr>)))))))"

fun appendCustomers ::
  "string \<Rightarrow> waitingCustomerMeta list \<Rightarrow> FaceDetail list \<Rightarrow> waitingCustomerMeta list result" where
  "appendCustomers lineObservationID customers [] = Returns customers"
| "appendCustomers lineObservationID customers (faceDetail # faceDetails) =
     (case newCustomer lineObservationID faceDetail of
        None \<Rightarrow> Panics ''nil pointer dereference''
      | Some cus \<Rightarrow> appendCustomers lineObservationID (customers @ [cus]) faceDetails)"

definition detectWaitingCustomersFromImg ::
  "world \<Rightarrow> string \<Rightarrow> reader \<Rightarrow>
     (int \<times> waitingCustomerMeta list \<times> error option) result \<times> step list" where
  "detectWaitingCustomersFromImg w lineObservationID imgReader =
     (case newSession w of
        Some err \<Rightarrow> (Returns (0, [], Some (Wrap err ''new aws session'')), [NewAwsSession])
      | None \<Rightarrow>
     (case imgReader of
        Inl err \<Rightarrow> (Returns (0, [], Some (Wrap err ''read img bytes from reader'')),
                    [NewAwsSession, ReadBytes])
      | Inr bytes \<Rightarrow>
     (case detectLabels w bytes of
        Inl err \<Rightarrow> (Returns (0, [], Some (Wrap err ''detect labels'')),
                    [NewAwsSession, ReadBytes, DetectLabels])
      | Inr labels \<Rightarrow>
     (case countPeople 0 labels of
        Panics m \<Rightarrow> (Panics m, [NewAwsSession, ReadBytes, DetectLabels])
      | Exits m \<Rightarrow> (Exits m, [NewAwsSession, ReadBytes, DetectLabels])
      | Returns waitingPeopleNum \<Rightarrow>
     (case detectFaces w bytes of
        Inl err \<Rightarrow> (Returns (0, [], Some (Wrap err ''detect faces'')),
                    [NewAwsSession, ReadBytes, DetectLabels, DetectFaces])
      | Inr faceDetails \<Rightarrow>
     (case appendCustomers lineObservationID [] faceDetails of
        Panics m \<Rightarrow> (Panics m, [NewAwsSession, ReadBytes, DetectLabels, DetectFaces])
      | Exits m \<Rightarrow> (Exits m, [NewAwsSession, ReadBytes, DetectLabels, DetectFaces])
      | Returns customers \<Rightarrow>
          (Returns (waitingPeopleNum, customers, None),
           [NewAwsSession, ReadBytes, DetectLabels, DetectFaces])))))))"

subsection \<open>AnalyzeLineImage\<close>

text \<open>
  The function of lines 54 to 98, with the steps it has taken when it ends. The
  argument \<open>mustEnv("GCP_PROJECT_ID")\<close> is evaluated before \<open>bigquery.NewClient\<close> is
  called. \<open>errors.Wrapf\<close> formats its message with the object name.
\<close>

definition AnalyzeLineImage :: "world \<Rightarrow> gcsEvent \<Rightarrow> error option result \<times> step list" where
  "AnalyzeLineImage w e =
     (let now = Clock (clock w) in
      case newGcsClient w of
        Some err \<Rightarrow> (Returns (Some (Wrap err ''init gcs client'')), [AcquireGcsClient])
      | None \<Rightarrow>
     (let t2 = [AcquireGcsClient, ReadEnv ''GCP_PROJECT_ID''] in
      case mustEnv w ''GCP_PROJECT_ID'' of
        Panics m \<Rightarrow> (Panics m, t2)
      | Exits m \<Rightarrow> (Exits m, t2)
      | Returns projectID \<Rightarrow>
     (let t3 = t2 @ [AcquireBqClient] in
      case newBqClient w projectID of
        Some err \<Rightarrow> (Returns (Some (Wrap err ''init bigquery client failed'')), t3)
      | None \<Rightarrow>
     (let lineObservationID = newXid w;
          t5 = t3 @ [GenerateID, ParseMeta] in
      case getMetaFromObjName (ObjectName e) of
        Panics m \<Rightarrow> (Panics m, t5)
      | Exits m \<Rightarrow> (Exits m, t5)
      | Returns (shopID, observedAt, Some err) \<Rightarrow>
          (Returns (Some (Wrap err (''get lineObservation meta from '' @ ObjectName e))), t5)
      | Returns (shopID, observedAt, None) \<Rightarrow>
     (let t6 = t5 @ [OpenReader] in
      case newReader w (Bucket e) (ObjectName e) of
        Inl err \<Rightarrow>
          (Returns (Some (Wrap err (''new '' @ ObjectName e @ '' reader failed''))), t6)
      | Inr reader \<Rightarrow>
     (case detectWaitingCustomersFromImg w lineObservationID reader of
        (Panics m, td) \<Rightarrow> (Panics m, t6 @ td)
      | (Exits m, td) \<Rightarrow> (Exits m, t6 @ td)
      | (Returns (waitingCustomerNum, customers, Some err), td) \<Rightarrow>
          (Returns (Some (Wrap err (''analyze '' @ ObjectName e @ '' image failed''))), t6 @ td)
      | (Returns (waitingCustomerNum, customers, None), td) \<Rightarrow>
     (let lo = \<lparr>ID = lineObservationID, ShopID = shopID,
                WaitingPeopleNum = waitingCustomerNum,
                ObservedAt = observedAt, CreatedAt = now\<rparr>;
          t7 = t6 @ td @ [PutObservation [lo]] in
      case Put (insertObservations w) [lo] of
        Some err \<Rightarrow> (Returns (Some (Wrap err ''put analyzed lineObservation data'')), t7)
      | None \<Rightarrow>
     (let t8 = t7 @ [PutMetas customers] in
      case Put (insertMetas w) customers of
        Some err \<Rightarrow>
          (Returns (Some (Wrap err ''load analyzed lineObservation data to bq faile'')), t8)
      | None \<Rightarrow> (Returns None, t8)))))))))"

section \<open>Vocabulary of the properties\<close>

subsection \<open>Object names\<close>

text \<open>
  A base-10 integer is an optional sign and at least one decimal digit; its value is
  read off the digits. \<open>int64Literal\<close> says that the value fits in an \<open>int64\<close>.
\<close>

definition digitsOf :: "string \<Rightarrow> string" where
  "digitsOf s = (if s \<noteq> [] \<and> (hd s = CHR ''+'' \<or> hd s = CHR ''-'') then tl s else s)"

definition isDecimal :: "string \<Rightarrow> bool" where
  "isDecimal s = (digitsOf s \<noteq> [] \<and> list_all isDigit (digitsOf s))"

definition decimalValue :: "string \<Rightarrow> int" where
  "decimalValue s =
     (let v = foldl (\<lambda>n c. n * 10 + digitVal c) 0 (digitsOf s)
      in if s \<noteq> [] \<and> hd s = CHR ''-'' then - v else v)"

definition int64Literal :: "string \<Rightarrow> bool" where
  "int64Literal s = (isDecimal s \<and> - (2 ^ 63) \<le> decimalValue s \<and> decimalValue s \<le> 2 ^ 63 - 1)"


subsection \<open>Detection results\<close>

text \<open>
  A label is complete when the response carries its name and its confidence, a face
  when it carries every attribute the program reads. A label counts as a person when
  its name is exactly \<open>Person\<close> and its confidence is at least 0.5.
\<close>

definition labelComplete :: "Label \<Rightarrow> bool" where
  "labelComplete l = (Label_Confidence l \<noteq> None \<and> Label_Name l \<noteq> None)"

definition isPerson :: "Label \<Rightarrow> bool" where
  "isPerson l =
     (case Label_Confidence l of
        None \<Rightarrow> False
      | Some c \<Rightarrow> 0.5 \<le> c \<and> Label_Name l = Some ''Person'')"

definition faceComplete :: "FaceDetail \<Rightarrow> bool" where
  "faceComplete f =
     ((case FaceDetail_Gender f of
         None \<Rightarrow> False
       | Some g \<Rightarrow> Gender_Value g \<noteq> None \<and> Gender_Confidence g \<noteq> None) \<and>
      (case FaceDetail_AgeRange f of
         None \<Rightarrow> False
       | Some a \<Rightarrow> AgeRange_Low a \<noteq> None \<and> AgeRange_High a \<noteq> None) \<and>
      FaceDetail_Confidence f \<noteq> None)"


subsection \<open>The steps of a full run\<close>

definition pipeline :: "lineObservation \<Rightarrow> waitingCustomerMeta list \<Rightarrow> step list" where
  "pipeline lo metas =
     [AcquireGcsClient, ReadEnv ''GCP_PROJECT_ID'', AcquireBqClient, GenerateID, ParseMeta,
      OpenReader, NewAwsSession, ReadBytes, DetectLabels, DetectFaces,
      PutObservation [lo], PutMetas metas]"

subsection \<open>Example inputs\<close>

text \<open>
  The end-to-end example: the object \<open>shop42_1700000000.jpg\<close>, a Person label with
  confidence 0.9 and two instances, one face, and a world in which every call succeeds.
\<close>

definition mkLabel :: "string \<Rightarrow> float64 \<Rightarrow> Instance list \<Rightarrow> Label" where
  "mkLabel name c instances =
     \<lparr>Label_Confidence = Some c, Label_Instances = instances, Label_Name = Some name\<rparr>"

definition exampleFace :: FaceDetail where
  "exampleFace =
     \<lparr>FaceDetail_Gender = Some \<lparr>Gender_Value = Some ''Female'', Gender_Confidence = Some 98.2\<rparr>,
      FaceDetail_AgeRange = Some \<lparr>AgeRange_Low = Some 20, AgeRange_High = Some 30\<rparr>,
      FaceDetail_Confidence = Some 99.1\<rparr>"

definition exampleEvent :: gcsEvent where
  "exampleEvent =
     \<lparr>Bucket = ''line-images'', ObjectName = ''shop42_1700000000.jpg'',
      ContentType = ''image/jpeg''\<rparr>"

definition exampleWorld :: world where
  "exampleWorld =
     \<lparr>newGcsClient = None,
      getenv = (\<lambda>key. if key = ''GCP_PROJECT_ID'' then ''fast-lane'' else []),
      newBqClient = (\<lambda>projectID. None),
      newXid = ''9m4e2mr0ui3e8a215n4g'',
      clock = 1700000100,
      newReader = (\<lambda>bucket name. Inr (Inr ''jpeg bytes'')),
      newSession = None,
      detectLabels = (\<lambda>bytes. Inr [mkLabel ''Person'' 0.9 [Instance 0, Instance 1]]),
      detectFaces = (\<lambda>bytes. Inr [exampleFace]),
      insertObservations = (\<lambda>rows. None),
      insertMetas = (\<lambda>rows. None)\<rparr>"

definition exampleObservation :: lineObservation where
  "exampleObservation =
     \<lparr>ID = ''9m4e2mr0ui3e8a215n4g'', ShopID = ''shop42'', WaitingPeopleNum = 2,
      ObservedAt = UnixLocal 1700000000, CreatedAt = Clock 1700000100\<rparr>"

definition exampleMeta :: waitingCustomerMeta where
  "exampleMeta =
     \<lparr>LineObservationID = ''9m4e2mr0ui3e8a215n4g'', Gender = ''Female'',
      GenderConfidence = 98.2, LowestAge = 20, HighestAge = 30, Confidence = 99.1\<rparr>"

text \<open>
  The label each stage puts on the error it returns. Reading the environment ends the
  process instead, and generating the identifier cannot fail.
\<close>

fun stageLabel :: "string \<Rightarrow> step \<Rightarrow> string" where
  "stageLabel name AcquireGcsClient = ''init gcs client''"
| "stageLabel name AcquireBqClient = ''init bigquery client failed''"
| "stageLabel name ParseMeta = ''get lineObservation meta from '' @ name"
| "stageLabel name OpenReader = ''new '' @ name @ '' reader failed''"
| "stageLabel name NewAwsSession = ''analyze '' @ name @ '' image failed''"
| "stageLabel name ReadBytes = ''analyze '' @ name @ '' image failed''"
| "stageLabel name DetectLabels = ''analyze '' @ name @ '' image failed''"
| "stageLabel name DetectFaces = ''analyze '' @ name @ '' image failed''"
| "stageLabel name (PutObservation rows) = ''put analyzed lineObservation data''"
| "stageLabel name (PutMetas rows) = ''load analyzed lineObservation data to bq faile''"
| "stageLabel name (ReadEnv key) = []"
| "stageLabel name GenerateID = []"

fun isDetection :: "step \<Rightarrow> bool" where
  "isDetection NewAwsSession = True"
| "isDetection ReadBytes = True"
| "isDetection DetectLabels = True"
| "isDetection DetectFaces = True"
| "isDetection s = False"

fun isStoreWrite :: "step \<Rightarrow> bool" where
  "isStoreWrite (PutObservation rows) = True"
| "isStoreWrite (PutMetas rows) = True"
| "isStoreWrite s = False"

text \<open>
  The order of the stages. \<open>runsInOrder tr stageOrder\<close> says that the steps \<open>tr\<close> are the
  first stages of that order, one after the other, whatever rows the writes carry.
\<close>

definition stageOrder :: "step list" where
  "stageOrder =
     [AcquireGcsClient, ReadEnv ''GCP_PROJECT_ID'', AcquireBqClient, GenerateID, ParseMeta,
      OpenReader, NewAwsSession, ReadBytes, DetectLabels, DetectFaces,
      PutObservation [], PutMetas []]"

fun sameStage :: "step \<Rightarrow> step \<Rightarrow> bool" where
  "sameStage (PutObservation rows) (PutObservation rows') = True"
| "sameStage (PutMetas rows) (PutMetas rows') = True"
| "sameStage (PutObservation rows) s = False"
| "sameStage (PutMetas rows) s = False"
| "sameStage s s' = (s = s')"

fun runsInOrder :: "step list \<Rightarrow> step list \<Rightarrow> bool" where
  "runsInOrder [] order = True"
| "runsInOrder (s # ss) [] = False"
| "runsInOrder (s # ss) (s' # order) = (sameStage s s' \<and> runsInOrder ss order)"

text \<open>
  What the call made at a step answers in a world: \<open>Returns None\<close> when it succeeds,
  \<open>Returns (Some cause)\<close> when it reports an error, \<open>Exits\<close> or \<open>Panics\<close> when it does
  not come back. The errors of the four calls inside \<open>detectWaitingCustomersFromImg\<close>
  carry the label that function puts on them. Generating the identifier always
  succeeds.
\<close>

fun stepOutcome :: "world \<Rightarrow> gcsEvent \<Rightarrow> step \<Rightarrow> error option result" where
  "stepOutcome w e AcquireGcsClient = Returns (newGcsClient w)"
| "stepOutcome w e (ReadEnv key) =
     (case mustEnv w key of
        Panics m \<Rightarrow> Panics m | Exits m \<Rightarrow> Exits m | Returns env \<Rightarrow> Returns None)"
| "stepOutcome w e AcquireBqClient = Returns (newBqClient w (getenv w ''GCP_PROJECT_ID''))"
| "stepOutcome w e GenerateID = Returns None"
| "stepOutcome w e ParseMeta =
     (case getMetaFromObjName (ObjectName e) of
        Panics m \<Rightarrow> Panics m | Exits m \<Rightarrow> Exits m
      | Returns (shopID, observedAt, err) \<Rightarrow> Returns err)"
| "stepOutcome w e OpenReader =
     (case newReader w (Bucket e) (ObjectName e) of
        Inl err \<Rightarrow> Returns (Some err) | Inr reader \<Rightarrow> Returns None)"
| "stepOutcome w e NewAwsSession =
     (case newSession w of
        Some err \<Rightarrow> Returns (Some (Wrap err ''new aws session'')) | None \<Rightarrow> Returns None)"
| "stepOutcome w e ReadBytes =
     (case newReader w (Bucket e) (ObjectName e) of
        Inr (Inl err) \<Rightarrow> Returns (Some (Wrap err ''read img bytes from reader''))
      | _ \<Rightarrow> Returns None)"
| "stepOutcome w e DetectLabels =
     (case newReader w (Bucket e) (ObjectName e) of
        Inr (Inr bytes) \<Rightarrow>
          (case detectLabels w bytes of
             Inl err \<Rightarrow> Returns (Some (Wrap err ''detect labels''))
           | Inr labels \<Rightarrow>
               (case countPeople 0 labels of
                  Panics m \<Rightarrow> Panics m | Exits m \<Rightarrow> Exits m | Returns n \<Rightarrow> Returns None))
      | _ \<Rightarrow> Returns None)"
| "stepOutcome w e DetectFaces =
     (case newReader w (Bucket e) (ObjectName e) of
        Inr (Inr bytes) \<Rightarrow>
          (case detectFaces w bytes of
             Inl err \<Rightarrow> Returns (Some (Wrap err ''detect faces''))
           | Inr faceDetails \<Rightarrow>
               (case appendCustomers (newXid w) [] faceDetails of
                  Panics m \<Rightarrow> Panics m | Exits m \<Rightarrow> Exits m
                | Returns customers \<Rightarrow> Returns None))
      | _ \<Rightarrow> Returns None)"
| "stepOutcome w e (PutObservation rows) = Returns (Put (insertObservations w) rows)"
| "stepOutcome w e (PutMetas rows) = Returns (Put (insertMetas w) rows)"

text \<open>Two more worlds: one without configuration, one whose objects cannot be opened.\<close>

definition unconfiguredWorld :: world where
  "unconfiguredWorld = exampleWorld\<lparr>getenv := (\<lambda>key. [])\<rparr>"

definition unreadableWorld :: world where
  "unreadableWorld =
     exampleWorld\<lparr>newReader := (\<lambda>bucket name. Inl (ExternalError ''object does not exist''))\<rparr>"


section \<open>Lemmas\<close>

subsection \<open>strconv.ParseInt accepts exactly the 64-bit decimal literals\<close>

lemma digitVal_range: "isDigit c \<Longrightarrow> 0 \<le> digitVal c \<and> digitVal c \<le> 9"
  by (auto simp: isDigit_def digitVal_def)

lemma foldl_digits_mono:
  "list_all isDigit ds \<Longrightarrow> 0 \<le> n \<Longrightarrow> n \<le> foldl (\<lambda>n c. n * 10 + digitVal c) n ds"
proof (induction ds arbitrary: n)
  case Nil
  then show ?case by simp
next
  case (Cons c cs)
  then have d: "0 \<le> digitVal c" using digitVal_range by simp
  with Cons.prems have "0 \<le> n * 10 + digitVal c" by simp
  with Cons have "n * 10 + digitVal c \<le> foldl (\<lambda>n c. n * 10 + digitVal c) (n * 10 + digitVal c) cs"
    by simp
  with d Cons.prems show ?case by simp
qed

lemma ParseUint_loop_digits:
  "list_all isDigit ds \<Longrightarrow> 0 \<le> n \<Longrightarrow> n \<le> maxUint64 \<Longrightarrow>
   ParseUint_loop s0 n ds =
     (if foldl (\<lambda>n c. n * 10 + digitVal c) n ds \<le> maxUint64
      then (foldl (\<lambda>n c. n * 10 + digitVal c) n ds, None)
      else (maxUint64, Some (NumError ''ParseUint'' s0 ErrRange)))"
proof (induction ds arbitrary: n)
  case Nil
  then show ?case by simp
next
  case (Cons c cs)
  let ?f = "\<lambda>n c. n * 10 + digitVal c"
  from Cons.prems have dig: "isDigit c" and rest: "list_all isDigit cs" by simp_all
  from dig have d: "0 \<le> digitVal c" "digitVal c \<le> 9" using digitVal_range by simp_all
  have nonneg: "0 \<le> n * 10 + digitVal c" using d Cons.prems by simp
  have mono: "n * 10 + digitVal c \<le> foldl ?f (n * 10 + digitVal c) cs"
    using foldl_digits_mono [OF rest nonneg] .
  show ?case
  proof (cases "n \<ge> maxUint64 div 10 + 1")
    case True
    then have "n * 10 + digitVal c > maxUint64" using d by (simp add: maxUint64_def)
    with mono have "\<not> foldl ?f n (c # cs) \<le> maxUint64" by simp
    with True dig show ?thesis by simp
  next
    case False
    then have small: "n * 10 < 2 ^ 64" by (simp add: maxUint64_def)
    with Cons.prems have n': "(n * 10) mod 2 ^ 64 = n * 10" by simp
    show ?thesis
    proof (cases "n * 10 + digitVal c \<le> maxUint64")
      case True
      then have n1: "(n * 10 + digitVal c) mod 2 ^ 64 = n * 10 + digitVal c"
        using nonneg by (simp add: maxUint64_def)
      have "ParseUint_loop s0 n (c # cs) = ParseUint_loop s0 (n * 10 + digitVal c) cs"
        using dig False n' n1 True d by (simp add: Let_def)
      with Cons.IH [OF rest nonneg True] show ?thesis by simp
    next
      case over: False
      then have lo: "2 ^ 64 \<le> n * 10 + digitVal c" by (simp add: maxUint64_def)
      have hi: "n * 10 + digitVal c < 2 * 2 ^ 64" using small d by simp
      have "(n * 10 + digitVal c) mod 2 ^ 64 = n * 10 + digitVal c - 2 ^ 64"
      proof -
        have "(n * 10 + digitVal c - 2 ^ 64) mod 2 ^ 64 = n * 10 + digitVal c - 2 ^ 64"
          using lo hi by (intro mod_pos_pos_trivial) simp_all
        then show ?thesis by (simp add: mod_diff_right_eq [symmetric])
      qed
      then have "(n * 10 + digitVal c) mod 2 ^ 64 < n * 10" using d by simp
      then have "ParseUint_loop s0 n (c # cs) = (maxUint64, Some (NumError ''ParseUint'' s0 ErrRange))"
        using dig False n' by (simp add: Let_def)
      moreover have "\<not> foldl ?f n (c # cs) \<le> maxUint64" using over mono by simp
      ultimately show ?thesis by simp
    qed
  qed
qed

lemma ParseUint_loop_nondigit:
  "\<not> list_all isDigit ds \<Longrightarrow>
   ParseUint_loop s0 n ds = (0, Some (NumError ''ParseUint'' s0 ErrSyntax)) \<or>
   ParseUint_loop s0 n ds = (maxUint64, Some (NumError ''ParseUint'' s0 ErrRange))"
  by (induction ds arbitrary: n) (auto simp: Let_def)

lemma ParseInt_literal:
  assumes "int64Literal s"
  shows "ParseInt s = (decimalValue s, None)"
proof -
  let ?f = "\<lambda>n c. n * 10 + digitVal c"
  let ?ds = "digitsOf s"
  let ?v = "foldl ?f 0 ?ds"
  from assms have ds: "?ds \<noteq> []" "list_all isDigit ?ds"
    and lo: "- (2 ^ 63) \<le> decimalValue s" and hi: "decimalValue s \<le> 2 ^ 63 - 1"
    by (simp_all add: int64Literal_def isDecimal_def)
  have s: "s \<noteq> []" using ds by (auto simp: digitsOf_def)
  have v0: "0 \<le> ?v" using foldl_digits_mono [OF ds(2), of 0] by simp
  have vmax: "?v \<le> maxUint64"
    using lo hi v0 by (auto simp: decimalValue_def Let_def maxUint64_def split: if_splits)
  have pu: "ParseUint ?ds = (?v, None)"
    using ParseUint_loop_digits [OF ds(2), of 0 ?ds] vmax ds(1)
    by (simp add: ParseUint_def maxUint64_def)
  show ?thesis
  proof (cases "hd s = CHR ''-''")
    case True
    then have tl: "?ds = tl s" using s by (simp add: digitsOf_def)
    from True s lo have "?v \<le> 2 ^ 63" by (simp add: decimalValue_def Let_def)
    with True s pu tl show ?thesis
      by (simp add: ParseInt_def decimalValue_def Let_def)
  next
    case False
    from False s hi have "?v < 2 ^ 63" by (simp add: decimalValue_def Let_def)
    with False s pu show ?thesis
      by (auto simp: ParseInt_def decimalValue_def Let_def digitsOf_def)
  qed
qed

lemma ParseInt_not_literal:
  assumes "\<not> int64Literal s"
  shows "\<exists>v k. ParseInt s = (v, Some (NumError ''ParseInt'' s k))"
proof (cases "s = []")
  case True
  then show ?thesis by (simp add: ParseInt_def)
next
  case s: False
  let ?f = "\<lambda>n c. n * 10 + digitVal c"
  let ?ds = "digitsOf s"
  let ?v = "foldl ?f 0 ?ds"
  have sel: "(if hd s = CHR ''+'' \<or> hd s = CHR ''-'' then tl s else s) = ?ds"
    using s by (simp add: digitsOf_def)
  consider (empty) "?ds = []" | (bad) "?ds \<noteq> []" "\<not> list_all isDigit ?ds"
    | (digits) "?ds \<noteq> []" "list_all isDigit ?ds" by blast
  then show ?thesis
  proof cases
    case empty
    then have "ParseUint ?ds = (0, Some (NumError ''ParseUint'' ?ds ErrSyntax))"
      by (simp add: ParseUint_def)
    with s sel show ?thesis by (simp add: ParseInt_def Let_def)
  next
    case bad
    from ParseUint_loop_nondigit [OF bad(2), of ?ds 0] bad(1)
    have "ParseUint ?ds = (0, Some (NumError ''ParseUint'' ?ds ErrSyntax)) \<or>
          ParseUint ?ds = (maxUint64, Some (NumError ''ParseUint'' ?ds ErrRange))"
      by (simp add: ParseUint_def)
    with s sel show ?thesis
      by (auto simp: ParseInt_def Let_def maxUint64_def)
  next
    case digits
    have v0: "0 \<le> ?v" using foldl_digits_mono [OF digits(2), of 0] by simp
    have pu: "ParseUint ?ds =
        (if ?v \<le> maxUint64 then (?v, None)
         else (maxUint64, Some (NumError ''ParseUint'' ?ds ErrRange)))"
      using ParseUint_loop_digits [OF digits(2), of 0 ?ds] digits(1)
      by (simp add: ParseUint_def maxUint64_def)
    from assms digits have range: "\<not> (- (2 ^ 63) \<le> decimalValue s \<and> decimalValue s \<le> 2 ^ 63 - 1)"
      by (simp add: int64Literal_def isDecimal_def)
    show ?thesis
    proof (cases "hd s = CHR ''-''")
      case True
      with range s v0 have "?v > 2 ^ 63" by (simp add: decimalValue_def Let_def)
      with True s sel pu show ?thesis
        by (auto simp: ParseInt_def Let_def maxUint64_def)
    next
      case False
      with range s v0 have "?v \<ge> 2 ^ 63" by (simp add: decimalValue_def Let_def)
      with False s sel pu show ?thesis
        by (auto simp: ParseInt_def Let_def maxUint64_def)
    qed
  qed
qed

subsection \<open>The two loops of the detection\<close>

lemma countPeople_last:
  "list_all labelComplete labels \<Longrightarrow>
   countPeople n labels =
     Returns (case filter isPerson labels of
                [] \<Rightarrow> n
              | q # qs \<Rightarrow> int (length (Label_Instances (last (q # qs)))))"
proof (induction labels arbitrary: n)
  case Nil
  then show ?case by simp
next
  case (Cons l ls)
  then obtain c nm where c: "Label_Confidence l = Some c" and nm: "Label_Name l = Some nm"
    by (auto simp: labelComplete_def)
  from Cons.prems have ls: "list_all labelComplete ls" by simp
  show ?case
  proof (cases "isPerson l")
    case True
    then have "countPeople n (l # ls) = countPeople (int (length (Label_Instances l))) ls"
      using c nm by (simp add: isPerson_def)
    then show ?thesis
      using True Cons.IH [OF ls, of "int (length (Label_Instances l))"]
      by (simp split: list.splits)
  next
    case False
    then have "countPeople n (l # ls) = countPeople n ls"
      using c nm by (auto simp: isPerson_def)
    then show ?thesis
      using False Cons.IH [OF ls, of n] by simp
  qed
qed

lemma appendCustomers_acc:
  "appendCustomers ident acc faces = Returns cs \<Longrightarrow>
   \<exists>new. cs = acc @ new \<and> length new = length faces \<and>
         new = map (\<lambda>f. the (newCustomer ident f)) faces \<and>
         (\<forall>f \<in> set faces. newCustomer ident f \<noteq> None)"
proof (induction faces arbitrary: acc)
  case Nil
  then show ?case by simp
next
  case (Cons f fs)
  then obtain cus where cus: "newCustomer ident f = Some cus"
    by (auto split: option.splits)
  with Cons.prems have "appendCustomers ident (acc @ [cus]) fs = Returns cs" by simp
  from Cons.IH [OF this] cus show ?case by auto
qed

lemma newCustomer_id:
  "newCustomer ident f = Some cus \<Longrightarrow> LineObservationID cus = ident"
  by (auto simp: newCustomer_def split: option.splits)

lemma newCustomer_complete:
  "faceComplete f \<Longrightarrow> newCustomer ident f \<noteq> None"
  by (auto simp: faceComplete_def newCustomer_def split: option.splits)

lemma appendCustomers_total:
  "list_all faceComplete faces \<Longrightarrow>
   appendCustomers ident acc faces = Returns (acc @ map (\<lambda>f. the (newCustomer ident f)) faces)"
proof (induction faces arbitrary: acc)
  case Nil
  then show ?case by simp
next
  case (Cons f fs)
  then have "newCustomer ident f \<noteq> None"
    using newCustomer_complete [of f ident] by simp
  then obtain cus where cus: "newCustomer ident f = Some cus" by auto
  with Cons show ?case by simp
qed

subsection \<open>Runs that reach the store\<close>

lemmas run_defs = AnalyzeLineImage_def detectWaitingCustomersFromImg_def mustEnv_def Let_def
lemmas run_splits = option.splits sum.splits result.splits prod.splits if_splits


lemma Analyze_reaches_PutMetas:
  assumes "AnalyzeLineImage w e = (out, tr)" and "PutMetas metas \<in> set tr"
  shows "\<exists>shop obsAt bytes labels faces n lo.
           getMetaFromObjName (ObjectName e) = Returns (shop, obsAt, None) \<and>
           newReader w (Bucket e) (ObjectName e) = Inr (Inr bytes) \<and>
           detectLabels w bytes = Inr labels \<and> countPeople 0 labels = Returns n \<and>
           detectFaces w bytes = Inr faces \<and>
           appendCustomers (newXid w) [] faces = Returns metas \<and>
           lo = \<lparr>ID = newXid w, ShopID = shop, WaitingPeopleNum = n,
                  ObservedAt = obsAt, CreatedAt = Clock (clock w)\<rparr> \<and>
           Put (insertObservations w) [lo] = None \<and>
           tr = pipeline lo metas \<and>
           out = (case Put (insertMetas w) metas of
                    Some err \<Rightarrow>
                      Returns (Some (Wrap err ''load analyzed lineObservation data to bq faile''))
                  | None \<Rightarrow> Returns None)"
  using assms unfolding run_defs pipeline_def
  by (auto split: run_splits)

lemma Analyze_full_run:
  assumes "newGcsClient w = None" and "getenv w ''GCP_PROJECT_ID'' \<noteq> []"
    and "newBqClient w (getenv w ''GCP_PROJECT_ID'') = None"
    and "getMetaFromObjName (ObjectName e) = Returns (shop, obsAt, None)"
    and "newReader w (Bucket e) (ObjectName e) = Inr (Inr bytes)"
    and "newSession w = None"
    and "detectLabels w bytes = Inr labels" and "countPeople 0 labels = Returns n"
    and "detectFaces w bytes = Inr faces"
    and "appendCustomers (newXid w) [] faces = Returns metas"
    and "lo = \<lparr>ID = newXid w, ShopID = shop, WaitingPeopleNum = n,
                 ObservedAt = obsAt, CreatedAt = Clock (clock w)\<rparr>"
    and "Put (insertObservations w) [lo] = None"
  shows "AnalyzeLineImage w e =
           (case Put (insertMetas w) metas of
              Some err \<Rightarrow>
                Returns (Some (Wrap err ''load analyzed lineObservation data to bq faile''))
            | None \<Rightarrow> Returns None,
            pipeline lo metas)"
  using assms unfolding run_defs pipeline_def
  by (simp split: option.splits)

subsection \<open>Runs on the example inputs\<close>

lemma example_run:
  "AnalyzeLineImage exampleWorld exampleEvent =
     (Returns None, pipeline exampleObservation [exampleMeta])"
  by code_simp



lemma example_run_unreadable:
  "AnalyzeLineImage unreadableWorld exampleEvent =
     (Returns (Some (Wrap (ExternalError ''object does not exist'')
                      ''new shop42_1700000000.jpg reader failed'')),
      [AcquireGcsClient, ReadEnv ''GCP_PROJECT_ID'', AcquireBqClient, GenerateID, ParseMeta,
       OpenReader])"
  by code_simp

subsection \<open>The ways an invocation can end\<close>

text \<open>
  One case for each return of \<open>AnalyzeLineImage\<close> and of \<open>detectWaitingCustomersFromImg\<close>,
  with what the calls before it answered.
\<close>

lemma AnalyzeLineImage_cases:
  assumes "AnalyzeLineImage w e = (out, tr)"
  shows
    "(\<exists>err.
        newGcsClient w = Some err \<and>
        out = Returns (Some (Wrap err ''init gcs client'')) \<and>
        tr = [AcquireGcsClient]) \<or>
     (newGcsClient w = None \<and>
        getenv w ''GCP_PROJECT_ID'' = [] \<and>
        out = Exits ''env variable with key=GCP_PROJECT_ID is not found'' \<and>
        tr = [AcquireGcsClient, ReadEnv ''GCP_PROJECT_ID'']) \<or>
     (\<exists>err.
        newGcsClient w = None \<and>
        getenv w ''GCP_PROJECT_ID'' \<noteq> [] \<and>
        newBqClient w (getenv w ''GCP_PROJECT_ID'') = Some err \<and>
        out = Returns (Some (Wrap err ''init bigquery client failed'')) \<and>
        tr = [AcquireGcsClient, ReadEnv ''GCP_PROJECT_ID'', AcquireBqClient]) \<or>
     (\<exists>m.
        newGcsClient w = None \<and>
        getenv w ''GCP_PROJECT_ID'' \<noteq> [] \<and>
        newBqClient w (getenv w ''GCP_PROJECT_ID'') = None \<and>
        getMetaFromObjName (ObjectName e) = Panics m \<and>
        out = Panics m \<and>
        tr = [AcquireGcsClient, ReadEnv ''GCP_PROJECT_ID'', AcquireBqClient, GenerateID, ParseMeta]) \<or>
     (\<exists>m.
        newGcsClient w = None \<and>
        getenv w ''GCP_PROJECT_ID'' \<noteq> [] \<and>
        newBqClient w (getenv w ''GCP_PROJECT_ID'') = None \<and>
        getMetaFromObjName (ObjectName e) = Exits m \<and>
        out = Exits m \<and>
        tr = [AcquireGcsClient, ReadEnv ''GCP_PROJECT_ID'', AcquireBqClient, GenerateID, ParseMeta]) \<or>
     (\<exists>shop obsAt err.
        newGcsClient w = None \<and>
        getenv w ''GCP_PROJECT_ID'' \<noteq> [] \<and>
        newBqClient w (getenv w ''GCP_PROJECT_ID'') = None \<and>
        getMetaFromObjName (ObjectName e) = Returns (shop, obsAt, Some err) \<and>
        out = Returns (Some (Wrap err (''get lineObservation meta from '' @ ObjectName e))) \<and>
        tr = [AcquireGcsClient, ReadEnv ''GCP_PROJECT_ID'', AcquireBqClient, GenerateID, ParseMeta]) \<or>
     (\<exists>shop obsAt err.
        newGcsClient w = None \<and>
        getenv w ''GCP_PROJECT_ID'' \<noteq> [] \<and>
        newBqClient w (getenv w ''GCP_PROJECT_ID'') = None \<and>
        getMetaFromObjName (ObjectName e) = Returns (shop, obsAt, None) \<and>
        newReader w (Bucket e) (ObjectName e) = Inl err \<and>
        out = Returns (Some (Wrap err (''new '' @ ObjectName e @ '' reader failed''))) \<and>
        tr = [AcquireGcsClient, ReadEnv ''GCP_PROJECT_ID'', AcquireBqClient, GenerateID, ParseMeta, OpenReader]) \<or>
     (\<exists>shop obsAt reader err.
        newGcsClient w = None \<and>
        getenv w ''GCP_PROJECT_ID'' \<noteq> [] \<and>
        newBqClient w (getenv w ''GCP_PROJECT_ID'') = None \<and>
        getMetaFromObjName (ObjectName e) = Returns (shop, obsAt, None) \<and>
        newReader w (Bucket e) (ObjectName e) = Inr reader \<and>
        newSession w = Some err \<and>
        out = Returns (Some (Wrap (Wrap err ''new aws session'') (''analyze '' @ ObjectName e @ '' image failed''))) \<and>
        tr = [AcquireGcsClient, ReadEnv ''GCP_PROJECT_ID'', AcquireBqClient, GenerateID, ParseMeta, OpenReader, NewAwsSession]) \<or>
     (\<exists>shop obsAt err.
        newGcsClient w = None \<and>
        getenv w ''GCP_PROJECT_ID'' \<noteq> [] \<and>
        newBqClient w (getenv w ''GCP_PROJECT_ID'') = None \<and>
        getMetaFromObjName (ObjectName e) = Returns (shop, obsAt, None) \<and>
        newReader w (Bucket e) (ObjectName e) = Inr (Inl err) \<and>
        newSession w = None \<and>
        out = Returns (Some (Wrap (Wrap err ''read img bytes from reader'') (''analyze '' @ ObjectName e @ '' image failed''))) \<and>
        tr = [AcquireGcsClient, ReadEnv ''GCP_PROJECT_ID'', AcquireBqClient, GenerateID, ParseMeta, OpenReader, NewAwsSession, ReadBytes]) \<or>
     (\<exists>shop obsAt bytes err.
        newGcsClient w = None \<and>
        getenv w ''GCP_PROJECT_ID'' \<noteq> [] \<and>
        newBqClient w (getenv w ''GCP_PROJECT_ID'') = None \<and>
        getMetaFromObjName (ObjectName e) = Returns (shop, obsAt, None) \<and>
        newReader w (Bucket e) (ObjectName e) = Inr (Inr bytes) \<and>
        newSession w = None \<and>
        detectLabels w bytes = Inl err \<and>
        out = Returns (Some (Wrap (Wrap err ''detect labels'') (''analyze '' @ ObjectName e @ '' image failed''))) \<and>
        tr = [AcquireGcsClient, ReadEnv ''GCP_PROJECT_ID'', AcquireBqClient, GenerateID, ParseMeta, OpenReader, NewAwsSession, ReadBytes, DetectLabels]) \<or>
     (\<exists>shop obsAt bytes labels m.
        newGcsClient w = None \<and>
        getenv w ''GCP_PROJECT_ID'' \<noteq> [] \<and>
        newBqClient w (getenv w ''GCP_PROJECT_ID'') = None \<and>
        getMetaFromObjName (ObjectName e) = Returns (shop, obsAt, None) \<and>
        newReader w (Bucket e) (ObjectName e) = Inr (Inr bytes) \<and>
        newSession w = None \<and>
        detectLabels w bytes = Inr labels \<and>
        countPeople 0 labels = Panics m \<and>
        out = Panics m \<and>
        tr = [AcquireGcsClient, ReadEnv ''GCP_PROJECT_ID'', AcquireBqClient, GenerateID, ParseMeta, OpenReader, NewAwsSession, ReadBytes, DetectLabels]) \<or>
     (\<exists>shop obsAt bytes labels m.
        newGcsClient w = None \<and>
        getenv w ''GCP_PROJECT_ID'' \<noteq> [] \<and>
        newBqClient w (getenv w ''GCP_PROJECT_ID'') = None \<and>
        getMetaFromObjName (ObjectName e) = Returns (shop, obsAt, None) \<and>
        newReader w (Bucket e) (ObjectName e) = Inr (Inr bytes) \<and>
        newSession w = None \<and>
        detectLabels w bytes = Inr labels \<and>
        countPeople 0 labels = Exits m \<and>
        out = Exits m \<and>
        tr = [AcquireGcsClient, ReadEnv ''GCP_PROJECT_ID'', AcquireBqClient, GenerateID, ParseMeta, OpenReader, NewAwsSession, ReadBytes, DetectLabels]) \<or>
     (\<exists>shop obsAt bytes labels n err.
        newGcsClient w = None \<and>
        getenv w ''GCP_PROJECT_ID'' \<noteq> [] \<and>
        newBqClient w (getenv w ''GCP_PROJECT_ID'') = None \<and>
        getMetaFromObjName (ObjectName e) = Returns (shop, obsAt, None) \<and>
        newReader w (Bucket e) (ObjectName e) = Inr (Inr bytes) \<and>
        newSession w = None \<and>
        detectLabels w bytes = Inr labels \<and>
        countPeople 0 labels = Returns n \<and>
        detectFaces w bytes = Inl err \<and>
        out = Returns (Some (Wrap (Wrap err ''detect faces'') (''analyze '' @ ObjectName e @ '' image failed''))) \<and>
        tr = [AcquireGcsClient, ReadEnv ''GCP_PROJECT_ID'', AcquireBqClient, GenerateID, ParseMeta, OpenReader, NewAwsSession, ReadBytes, DetectLabels, DetectFaces]) \<or>
     (\<exists>shop obsAt bytes labels n faces m.
        newGcsClient w = None \<and>
        getenv w ''GCP_PROJECT_ID'' \<noteq> [] \<and>
        newBqClient w (getenv w ''GCP_PROJECT_ID'') = None \<and>
        getMetaFromObjName (ObjectName e) = Returns (shop, obsAt, None) \<and>
        newReader w (Bucket e) (ObjectName e) = Inr (Inr bytes) \<and>
        newSession w = None \<and>
        detectLabels w bytes = Inr labels \<and>
        countPeople 0 labels = Returns n \<and>
        detectFaces w bytes = Inr faces \<and>
        appendCustomers (newXid w) [] faces = Panics m \<and>
        out = Panics m \<and>
        tr = [AcquireGcsClient, ReadEnv ''GCP_PROJECT_ID'', AcquireBqClient, GenerateID, ParseMeta, OpenReader, NewAwsSession, ReadBytes, DetectLabels, DetectFaces]) \<or>
     (\<exists>shop obsAt bytes labels n faces m.
        newGcsClient w = None \<and>
        getenv w ''GCP_PROJECT_ID'' \<noteq> [] \<and>
        newBqClient w (getenv w ''GCP_PROJECT_ID'') = None \<and>
        getMetaFromObjName (ObjectName e) = Returns (shop, obsAt, None) \<and>
        newReader w (Bucket e) (ObjectName e) = Inr (Inr bytes) \<and>
        newSession w = None \<and>
        detectLabels w bytes = Inr labels \<and>
        countPeople 0 labels = Returns n \<and>
        detectFaces w bytes = Inr faces \<and>
        appendCustomers (newXid w) [] faces = Exits m \<and>
        out = Exits m \<and>
        tr = [AcquireGcsClient, ReadEnv ''GCP_PROJECT_ID'', AcquireBqClient, GenerateID, ParseMeta, OpenReader, NewAwsSession, ReadBytes, DetectLabels, DetectFaces]) \<or>
     (\<exists>shop obsAt bytes labels n faces metas lo err.
        newGcsClient w = None \<and>
        getenv w ''GCP_PROJECT_ID'' \<noteq> [] \<and>
        newBqClient w (getenv w ''GCP_PROJECT_ID'') = None \<and>
        getMetaFromObjName (ObjectName e) = Returns (shop, obsAt, None) \<and>
        newReader w (Bucket e) (ObjectName e) = Inr (Inr bytes) \<and>
        newSession w = None \<and>
        detectLabels w bytes = Inr labels \<and>
        countPeople 0 labels = Returns n \<and>
        detectFaces w bytes = Inr faces \<and>
        appendCustomers (newXid w) [] faces = Returns metas \<and>
        lo = \<lparr>ID = newXid w, ShopID = shop, WaitingPeopleNum = n, ObservedAt = obsAt, CreatedAt = Clock (clock w)\<rparr> \<and>
        Put (insertObservations w) [lo] = Some err \<and>
        out = Returns (Some (Wrap err ''put analyzed lineObservation data'')) \<and>
        tr = [AcquireGcsClient, ReadEnv ''GCP_PROJECT_ID'', AcquireBqClient, GenerateID, ParseMeta, OpenReader, NewAwsSession, ReadBytes, DetectLabels, DetectFaces, PutObservation [lo]]) \<or>
     (\<exists>shop obsAt bytes labels n faces metas lo err.
        newGcsClient w = None \<and>
        getenv w ''GCP_PROJECT_ID'' \<noteq> [] \<and>
        newBqClient w (getenv w ''GCP_PROJECT_ID'') = None \<and>
        getMetaFromObjName (ObjectName e) = Returns (shop, obsAt, None) \<and>
        newReader w (Bucket e) (ObjectName e) = Inr (Inr bytes) \<and>
        newSession w = None \<and>
        detectLabels w bytes = Inr labels \<and>
        countPeople 0 labels = Returns n \<and>
        detectFaces w bytes = Inr faces \<and>
        appendCustomers (newXid w) [] faces = Returns metas \<and>
        lo = \<lparr>ID = newXid w, ShopID = shop, WaitingPeopleNum = n, ObservedAt = obsAt, CreatedAt = Clock (clock w)\<rparr> \<and>
        Put (insertObservations w) [lo] = None \<and>
        Put (insertMetas w) metas = Some err \<and>
        out = Returns (Some (Wrap err ''load analyzed lineObservation data to bq faile'')) \<and>
        tr = [AcquireGcsClient, ReadEnv ''GCP_PROJECT_ID'', AcquireBqClient, GenerateID, ParseMeta, OpenReader, NewAwsSession, ReadBytes, DetectLabels, DetectFaces, PutObservation [lo], PutMetas metas]) \<or>
     (\<exists>shop obsAt bytes labels n faces metas lo.
        newGcsClient w = None \<and>
        getenv w ''GCP_PROJECT_ID'' \<noteq> [] \<and>
        newBqClient w (getenv w ''GCP_PROJECT_ID'') = None \<and>
        getMetaFromObjName (ObjectName e) = Returns (shop, obsAt, None) \<and>
        newReader w (Bucket e) (ObjectName e) = Inr (Inr bytes) \<and>
        newSession w = None \<and>
        detectLabels w bytes = Inr labels \<and>
        countPeople 0 labels = Returns n \<and>
        detectFaces w bytes = Inr faces \<and>
        appendCustomers (newXid w) [] faces = Returns metas \<and>
        lo = \<lparr>ID = newXid w, ShopID = shop, WaitingPeopleNum = n, ObservedAt = obsAt, CreatedAt = Clock (clock w)\<rparr> \<and>
        Put (insertObservations w) [lo] = None \<and>
        Put (insertMetas w) metas = None \<and>
        out = Returns None \<and>
        tr = [AcquireGcsClient, ReadEnv ''GCP_PROJECT_ID'', AcquireBqClient, GenerateID, ParseMeta, OpenReader, NewAwsSession, ReadBytes, DetectLabels, DetectFaces, PutObservation [lo], PutMetas metas])"
  using assms unfolding run_defs
  by (auto split: run_splits)

subsection \<open>Extension, base name and tokens of an object name\<close>

lemma Ext_loop_suffix:
  "k \<le> length ext \<Longrightarrow> CHR ''.'' \<notin> set ext \<Longrightarrow> CHR ''/'' \<notin> set ext \<Longrightarrow>
   Ext_loop (pre @ CHR ''.'' # ext) (Suc (length pre + k)) = CHR ''.'' # ext"
proof (induction k)
  case 0
  then show ?case by (simp add: IsPathSeparator_def nth_append)
next
  case (Suc k)
  from Suc.prems(1) have "k < length ext" by simp
  then have mem: "ext ! k \<in> set ext" by (rule nth_mem)
  from mem Suc.prems(2) have nodot: "ext ! k \<noteq> CHR ''.''" by auto
  from mem Suc.prems(3) have nosep: "ext ! k \<noteq> CHR ''/''" by auto
  have at: "(pre @ CHR ''.'' # ext) ! (Suc (length pre + k)) = ext ! k"
    by (simp add: nth_append)
  have "Ext_loop (pre @ CHR ''.'' # ext) (Suc (length pre + Suc k)) =
        Ext_loop (pre @ CHR ''.'' # ext) (Suc (length pre + k))"
    using at nodot nosep by (simp add: IsPathSeparator_def)
  also have "\<dots> = CHR ''.'' # ext"
    using Suc.IH Suc.prems by simp
  finally show ?case .
qed

lemma Ext_suffix:
  "CHR ''.'' \<notin> set ext \<Longrightarrow> CHR ''/'' \<notin> set ext \<Longrightarrow> Ext (pre @ CHR ''.'' # ext) = CHR ''.'' # ext"
  using Ext_loop_suffix [of "length ext" ext pre] by (simp add: Ext_def)

lemma stripTrailingSeparators_id:
  "path = [] \<or> last path \<noteq> CHR ''/'' \<Longrightarrow> stripTrailingSeparators path = path"
  by (subst stripTrailingSeparators.simps) (auto simp: IsPathSeparator_def)

lemma lastElementStart_dir:
  "k \<le> length rest \<Longrightarrow> CHR ''/'' \<notin> set rest \<Longrightarrow> dir = [] \<or> last dir = CHR ''/'' \<Longrightarrow>
   lastElementStart (dir @ rest) (length dir + k) = length dir"
proof (induction k)
  case 0
  show ?case
  proof (cases dir rule: rev_cases)
    case Nil
    then show ?thesis by simp
  next
    case (snoc ds d)
    with "0.prems"(3) have "d = CHR ''/''" by simp
    with snoc show ?thesis by (simp add: IsPathSeparator_def nth_append)
  qed
next
  case (Suc k)
  from Suc.prems(1) have "k < length rest" by simp
  then have mem: "rest ! k \<in> set rest" by (rule nth_mem)
  from mem Suc.prems(2) have nosep: "rest ! k \<noteq> CHR ''/''" by auto
  have at: "(dir @ rest) ! (length dir + k) = rest ! k" by (simp add: nth_append)
  have "lastElementStart (dir @ rest) (length dir + Suc k) =
        lastElementStart (dir @ rest) (length dir + k)"
    using at nosep by (simp add: IsPathSeparator_def)
  also have "\<dots> = length dir" using Suc.IH Suc.prems by simp
  finally show ?case .
qed

lemma Base_dir:
  assumes "rest \<noteq> []" and "CHR ''/'' \<notin> set rest" and "dir = [] \<or> last dir = CHR ''/''"
  shows "Base (dir @ rest) = rest"
proof -
  from assms(1) have "last rest \<in> set rest" by (rule last_in_set)
  with assms(2) have "last rest \<noteq> CHR ''/''" by auto
  with assms(1) have "last (dir @ rest) \<noteq> CHR ''/''" by simp
  then have strip: "stripTrailingSeparators (dir @ rest) = dir @ rest"
    using stripTrailingSeparators_id by blast
  have "lastElementStart (dir @ rest) (length (dir @ rest)) = length dir"
    using lastElementStart_dir [of "length rest" rest dir] assms by simp
  with strip assms(1) show ?thesis by (simp add: Base_def Let_def)
qed

lemma cut_at_sep:
  "sep \<notin> set a \<Longrightarrow>
   takeWhile (\<lambda>c. c \<noteq> sep) (a @ sep # b) = a \<and> dropWhile (\<lambda>c. c \<noteq> sep) (a @ sep # b) = sep # b"
  by (induction a) auto

lemma cut_without_sep:
  "sep \<notin> set a \<Longrightarrow>
   takeWhile (\<lambda>c. c \<noteq> sep) a = a \<and> dropWhile (\<lambda>c. c \<noteq> sep) a = []"
  by (induction a) auto

lemma Split_single: "sep \<notin> set a \<Longrightarrow> Split a sep = [a]"
  using cut_without_sep [of sep a] by (subst Split.simps) (simp add: Let_def)

lemma Split_first: "sep \<notin> set a \<Longrightarrow> Split (a @ sep # b) sep = a # Split b sep"
  using cut_at_sep [of sep a b] by (subst Split.simps) (simp add: Let_def)

lemma decimal_bytes:
  assumes "isDecimal s" and "c \<in> set s"
  shows "isDigit c \<or> c = CHR ''+'' \<or> c = CHR ''-''"
proof (cases s)
  case Nil
  with assms show ?thesis by simp
next
  case (Cons x xs)
  from assms(1) have "list_all isDigit (digitsOf s)" by (simp add: isDecimal_def)
  with Cons assms(2) show ?thesis
    by (auto simp: digitsOf_def list_all_iff split: if_splits)
qed

lemma decimal_no_underscore: "isDecimal s \<Longrightarrow> CHR ''_'' \<notin> set s"
  using decimal_bytes [of s "CHR ''_''"] by (auto simp: isDigit_def)

lemma decimal_no_separator: "isDecimal s \<Longrightarrow> CHR ''/'' \<notin> set s"
  using decimal_bytes [of s "CHR ''/''"] by (auto simp: isDigit_def)

lemma getMetaFromObjName_tokens:
  assumes dir: "dir = [] \<or> last dir = CHR ''/''"
    and shop: "CHR ''_'' \<notin> set shop" "CHR ''/'' \<notin> set shop"
    and tok: "CHR ''_'' \<notin> set tok" "CHR ''/'' \<notin> set tok"
    and extra: "extra = [] \<or> hd extra = CHR ''_''" "CHR ''/'' \<notin> set extra"
    and ext: "CHR ''.'' \<notin> set ext" "CHR ''/'' \<notin> set ext"
  shows "getMetaFromObjName (dir @ shop @ ''_'' @ tok @ extra @ ''.'' @ ext) =
           (case ParseInt tok of
              (unixTime, Some err) \<Rightarrow> Returns (shop, ZeroTime, Some err)
            | (unixTime, None) \<Rightarrow> Returns (shop, UnixLocal unixTime, None))"
proof -
  let ?stem = "shop @ CHR ''_'' # tok @ extra"
  let ?name = "dir @ shop @ ''_'' @ tok @ extra @ ''.'' @ ext"
  have name: "?name = (dir @ ?stem) @ CHR ''.'' # ext" by simp
  have "Ext ?name = CHR ''.'' # ext"
    unfolding name using ext by (rule Ext_suffix)
  then have cut: "take (length ?name - length (Ext ?name)) ?name = dir @ ?stem" by simp
  have "CHR ''/'' \<notin> set ?stem" using shop(2) tok(2) extra(2) by simp
  then have base: "Base (dir @ ?stem) = ?stem"
    using Base_dir [of ?stem dir] dir by simp
  have "\<exists>ts. Split ?stem (CHR ''_'') = shop # tok # ts"
  proof -
    have 1: "Split ?stem (CHR ''_'') = shop # Split (tok @ extra) (CHR ''_'')"
      using Split_first [OF shop(1), of "tok @ extra"] by simp
    show ?thesis
    proof (cases extra)
      case Nil
      with 1 Split_single [OF tok(1)] show ?thesis by simp
    next
      case (Cons m ms)
      with extra(1) have "extra = CHR ''_'' # ms" by simp
      with 1 Split_first [OF tok(1), of ms] show ?thesis by simp
    qed
  qed
  then obtain ts where toks: "Split ?stem (CHR ''_'') = shop # tok # ts" by blast
  show ?thesis
    unfolding getMetaFromObjName_def cut base Let_def toks
    by (simp split: prod.splits option.splits)
qed

text \<open>
  A name without underscore has one token only, and reading the second one panics.
\<close>

lemma getMetaFromObjName_no_underscore:
  assumes "dir = [] \<or> last dir = CHR ''/''" and "stem \<noteq> []"
    and "CHR ''_'' \<notin> set stem" "CHR ''/'' \<notin> set stem"
    and "CHR ''.'' \<notin> set ext" "CHR ''/'' \<notin> set ext"
  shows "getMetaFromObjName (dir @ stem @ ''.'' @ ext) = Panics ''index out of range [1] with length 1''"
proof -
  let ?name = "dir @ stem @ ''.'' @ ext"
  have name: "?name = (dir @ stem) @ CHR ''.'' # ext" by simp
  have "Ext ?name = CHR ''.'' # ext"
    unfolding name using assms(5,6) by (rule Ext_suffix)
  then have cut: "take (length ?name - length (Ext ?name)) ?name = dir @ stem" by simp
  have base: "Base (dir @ stem) = stem"
    using Base_dir [of stem dir] assms by simp
  have toks: "Split stem (CHR ''_'') = [stem]"
    using assms(3) by (rule Split_single)
  show ?thesis
    unfolding getMetaFromObjName_def cut base Let_def toks by simp
qed

section \<open>The claims\<close>

subsection \<open>Counting the waiting people\<close>

text \<open>
  C2. For every label-detection result whose labels carry a name and a confidence,
  \<open>waitingPeopleNum\<close> is the number of instances of a label named exactly \<open>Person\<close>
  with confidence at least 0.5, and 0 when there is no such label. A Person label with
  confidence 0.5 and three instances gives 3; with confidence 0.49 it gives 0.
\<close>

theorem waitingPeopleNum_counts_person:
  "(list_all labelComplete labels \<longrightarrow>
      (\<exists>n. countPeople 0 labels = Returns n \<and>
           ((\<exists>l \<in> set labels. isPerson l) \<longrightarrow>
              (\<exists>l \<in> set labels. isPerson l \<and> n = int (length (Label_Instances l)))) \<and>
           ((\<forall>l \<in> set labels. \<not> isPerson l) \<longrightarrow> n = 0))) \<and>
   countPeople 0 [mkLabel ''Person'' 0.5 [Instance 0, Instance 1, Instance 2]] = Returns 3 \<and>
   countPeople 0 [mkLabel ''Person'' 0.49 [Instance 0, Instance 1, Instance 2]] = Returns 0"
proof (intro conjI impI)
  assume complete: "list_all labelComplete labels"
  let ?qs = "filter isPerson labels"
  show "\<exists>n. countPeople 0 labels = Returns n \<and>
           ((\<exists>l \<in> set labels. isPerson l) \<longrightarrow>
              (\<exists>l \<in> set labels. isPerson l \<and> n = int (length (Label_Instances l)))) \<and>
           ((\<forall>l \<in> set labels. \<not> isPerson l) \<longrightarrow> n = 0)"
  proof (cases ?qs)
    case Nil
    then have none: "\<forall>l \<in> set labels. \<not> isPerson l"
      by (simp add: filter_empty_conv)
    from Nil have "countPeople 0 labels = Returns 0"
      using countPeople_last [OF complete, of 0] by simp
    with none show ?thesis by simp
  next
    case (Cons q qs')
    then have "last ?qs \<in> set ?qs" by simp
    then have mem: "last ?qs \<in> set labels" and pers: "isPerson (last ?qs)" by simp_all
    from Cons have "countPeople 0 labels = Returns (int (length (Label_Instances (last ?qs))))"
      using countPeople_last [OF complete, of 0] by simp
    with mem pers show ?thesis by auto
  qed
next
  show "countPeople 0 [mkLabel ''Person'' 0.5 [Instance 0, Instance 1, Instance 2]] = Returns 3"
    by (simp add: mkLabel_def)
next
  show "countPeople 0 [mkLabel ''Person'' 0.49 [Instance 0, Instance 1, Instance 2]] = Returns 0"
    by (simp add: mkLabel_def)
qed

theorem waitingPeopleNum_counts_person_witness:
  "list_all labelComplete
     [mkLabel ''Car'' 0.97 [Instance 0], mkLabel ''Person'' 0.9 [Instance 1, Instance 2],
      mkLabel ''person'' 0.8 [Instance 3]] \<and>
   countPeople 0
     [mkLabel ''Car'' 0.97 [Instance 0], mkLabel ''Person'' 0.9 [Instance 1, Instance 2],
      mkLabel ''person'' 0.8 [Instance 3]] = Returns 2 \<and>
   list_all labelComplete [mkLabel ''Car'' 0.97 [Instance 0]] \<and>
   countPeople 0 [mkLabel ''Car'' 0.97 [Instance 0]] = Returns 0"
  using waitingPeopleNum_counts_person
    [of "[mkLabel ''Car'' 0.97 [Instance 0], mkLabel ''Person'' 0.9 [Instance 1, Instance 2],
          mkLabel ''person'' 0.8 [Instance 3]]"]
    waitingPeopleNum_counts_person [of "[mkLabel ''Car'' 0.97 [Instance 0]]"]
  by (simp add: mkLabel_def labelComplete_def isPerson_def)

text \<open>
  C10. When several labels are named \<open>Person\<close> with confidence at least 0.5,
  \<open>waitingPeopleNum\<close> is the number of instances of the last of them in the list: each
  later one overwrites the count of the earlier ones.
\<close>

theorem waitingPeopleNum_last_person:
  "list_all labelComplete labels \<Longrightarrow> filter isPerson labels \<noteq> [] \<Longrightarrow>
   countPeople 0 labels =
     Returns (int (length (Label_Instances (last (filter isPerson labels)))))"
  using countPeople_last [of labels 0] by (simp split: list.splits)

theorem waitingPeopleNum_last_person_witness:
  "list_all labelComplete
     [mkLabel ''Person'' 0.9 [Instance 0, Instance 1, Instance 2],
      mkLabel ''Person'' 0.3 [Instance 3, Instance 4],
      mkLabel ''Person'' 0.6 [Instance 5]] \<and>
   filter isPerson
     [mkLabel ''Person'' 0.9 [Instance 0, Instance 1, Instance 2],
      mkLabel ''Person'' 0.3 [Instance 3, Instance 4],
      mkLabel ''Person'' 0.6 [Instance 5]] \<noteq> [] \<and>
   countPeople 0
     [mkLabel ''Person'' 0.9 [Instance 0, Instance 1, Instance 2],
      mkLabel ''Person'' 0.3 [Instance 3, Instance 4],
      mkLabel ''Person'' 0.6 [Instance 5]] = Returns 1"
  using waitingPeopleNum_last_person
    [of "[mkLabel ''Person'' 0.9 [Instance 0, Instance 1, Instance 2],
          mkLabel ''Person'' 0.3 [Instance 3, Instance 4],
          mkLabel ''Person'' 0.6 [Instance 5]]"]
  by (simp add: mkLabel_def labelComplete_def isPerson_def)

subsection \<open>Parsing the object name\<close>

text \<open>
  C1. For every object name \<open><shop>_<epoch>.<ext>\<close>, with or without a directory in
  front, in which \<open><shop>\<close> has no underscore and no slash, \<open><ext>\<close> has no dot and no
  slash, and \<open><epoch>\<close> is a base-10 integer that fits in 64 bits,
  \<open>getMetaFromObjName\<close> returns the shop verbatim, the local time of \<open><epoch>\<close> Unix
  seconds, and no error.
\<close>

theorem getMetaFromObjName_valid_name:
  assumes "dir = [] \<or> last dir = CHR ''/''"
    and "CHR ''_'' \<notin> set shop" and "CHR ''/'' \<notin> set shop"
    and "int64Literal epoch"
    and "CHR ''.'' \<notin> set ext" and "CHR ''/'' \<notin> set ext"
  shows "getMetaFromObjName (dir @ shop @ ''_'' @ epoch @ ''.'' @ ext) =
           Returns (shop, UnixLocal (decimalValue epoch), None)"
proof -
  from assms(4) have dec: "isDecimal epoch" by (simp add: int64Literal_def)
  have "getMetaFromObjName (dir @ shop @ ''_'' @ epoch @ [] @ ''.'' @ ext) =
          (case ParseInt epoch of
             (unixTime, Some err) \<Rightarrow> Returns (shop, ZeroTime, Some err)
           | (unixTime, None) \<Rightarrow> Returns (shop, UnixLocal unixTime, None))"
    using assms(1,2,3) decimal_no_underscore [OF dec] decimal_no_separator [OF dec] _ _ assms(5,6)
    by (rule getMetaFromObjName_tokens) simp_all
  with ParseInt_literal [OF assms(4)] show ?thesis by simp
qed

theorem getMetaFromObjName_valid_name_witness:
  "int64Literal ''1700000000'' \<and>
   getMetaFromObjName ''shop42_1700000000.jpg'' = Returns (''shop42'', UnixLocal 1700000000, None) \<and>
   getMetaFromObjName ''lines/tokyo/shop42_1700000000.jpg'' =
     Returns (''shop42'', UnixLocal 1700000000, None)"
  using getMetaFromObjName_valid_name [of "[]" "''shop42''" "''1700000000''" "''jpg''"]
    getMetaFromObjName_valid_name [of "''lines/tokyo/''" "''shop42''" "''1700000000''" "''jpg''"]
  by (simp add: int64Literal_def isDecimal_def digitsOf_def decimalValue_def isDigit_def
      digitVal_def)

text \<open>
  The claim as the specification states it asks only that \<open><epoch>\<close> be a base-10 integer.
  The epoch \<open>9223372036854775808\<close> is one, and the parser returns a range error for it.
\<close>

theorem getMetaFromObjName_epoch_beyond_int64:
  "isDecimal ''9223372036854775808'' \<and>
   getMetaFromObjName ''shop42_9223372036854775808.jpg'' =
     Returns (''shop42'', ZeroTime,
              Some (NumError ''ParseInt'' ''9223372036854775808'' ErrRange))"
  by code_simp

text \<open>
  C4. When the second underscore-separated token of the base name without extension is
  not a base-10 integer that fits in 64 bits, \<open>getMetaFromObjName\<close> returns the
  \<open>NumError\<close> of \<open>strconv.ParseInt\<close>, which names the token, together with the zero
  time. Tokens after the second are ignored: with such an integer as second token the
  call succeeds whatever follows it.
\<close>

theorem getMetaFromObjName_second_token:
  assumes "dir = [] \<or> last dir = CHR ''/''"
    and "CHR ''_'' \<notin> set shop" and "CHR ''/'' \<notin> set shop"
    and "CHR ''_'' \<notin> set tok" and "CHR ''/'' \<notin> set tok"
    and "extra = [] \<or> hd extra = CHR ''_''" and "CHR ''/'' \<notin> set extra"
    and "CHR ''.'' \<notin> set ext" and "CHR ''/'' \<notin> set ext"
  shows "(\<not> int64Literal tok \<longrightarrow>
            (\<exists>k. getMetaFromObjName (dir @ shop @ ''_'' @ tok @ extra @ ''.'' @ ext) =
                   Returns (shop, ZeroTime, Some (NumError ''ParseInt'' tok k)))) \<and>
         (int64Literal tok \<longrightarrow>
            getMetaFromObjName (dir @ shop @ ''_'' @ tok @ extra @ ''.'' @ ext) =
              Returns (shop, UnixLocal (decimalValue tok), None))"
proof (intro conjI impI)
  note shape = getMetaFromObjName_tokens [OF assms]
  {
    assume "\<not> int64Literal tok"
    then obtain v k where "ParseInt tok = (v, Some (NumError ''ParseInt'' tok k))"
      using ParseInt_not_literal by blast
    with shape show "\<exists>k. getMetaFromObjName (dir @ shop @ ''_'' @ tok @ extra @ ''.'' @ ext) =
                   Returns (shop, ZeroTime, Some (NumError ''ParseInt'' tok k))"
      by simp
  next
    assume "int64Literal tok"
    with shape ParseInt_literal [of tok]
    show "getMetaFromObjName (dir @ shop @ ''_'' @ tok @ extra @ ''.'' @ ext) =
              Returns (shop, UnixLocal (decimalValue tok), None)"
      by simp
  }
qed

theorem getMetaFromObjName_second_token_witness:
  "\<not> int64Literal ''a'' \<and>
   (\<exists>k. getMetaFromObjName ''shop_a_1700000000.jpg'' =
          Returns (''shop'', ZeroTime, Some (NumError ''ParseInt'' ''a'' k))) \<and>
   \<not> int64Literal ''17e8'' \<and>
   (\<exists>k. getMetaFromObjName ''shop42_17e8.jpg'' =
          Returns (''shop42'', ZeroTime, Some (NumError ''ParseInt'' ''17e8'' k))) \<and>
   int64Literal ''34'' \<and>
   getMetaFromObjName ''12_34_1700000000.jpg'' = Returns (''12'', UnixLocal 34, None)"
  using getMetaFromObjName_second_token
      [of "[]" "''shop''" "''a''" "''_1700000000''" "''jpg''"]
    getMetaFromObjName_second_token [of "[]" "''shop42''" "''17e8''" "[]" "''jpg''"]
    getMetaFromObjName_second_token [of "[]" "''12''" "''34''" "''_1700000000''" "''jpg''"]
  by (simp add: int64Literal_def isDecimal_def digitsOf_def decimalValue_def isDigit_def
      digitVal_def)

text \<open>
  The claim as the specification states it also promises an error for a shop
  identifier that contains an underscore. The name \<open>12_34_1700000000.jpg\<close>, whose shop
  identifier would be \<open>12_34\<close>, is parsed without error as shop \<open>12\<close> observed at
  second 34.
\<close>

theorem getMetaFromObjName_extra_segment_accepted:
  "getMetaFromObjName ''12_34_1700000000.jpg'' = Returns (''12'', UnixLocal 34, None)"
  by code_simp

subsection \<open>Assembling the records\<close>

text \<open>
  C3. A face-detection result with N faces, each carrying the attributes the program
  reads, gives exactly N \<open>waitingCustomerMeta\<close> records, N = 0 included, and each of them
  carries the identifier handed to the loop. In an invocation that writes the records,
  they are as many as the faces the service returned for the object's bytes, and the
  \<open>LineObservationID\<close> of each is the \<open>ID\<close> of the \<open>lineObservation\<close> written in the same
  invocation, which is the identifier generated for it.
\<close>

theorem metas_reference_their_observation:
  "(list_all faceComplete faces \<longrightarrow>
      (\<exists>customers. appendCustomers lineObservationID [] faces = Returns customers \<and>
         length customers = length faces \<and>
         (\<forall>cus \<in> set customers. LineObservationID cus = lineObservationID))) \<and>
   (AnalyzeLineImage w e = (out, tr) \<and> PutMetas metas \<in> set tr \<longrightarrow>
      (\<exists>lo bytes faceDetails.
         PutObservation [lo] \<in> set tr \<and> ID lo = newXid w \<and>
         newReader w (Bucket e) (ObjectName e) = Inr (Inr bytes) \<and>
         detectFaces w bytes = Inr faceDetails \<and>
         length metas = length faceDetails \<and>
         (\<forall>cus \<in> set metas. LineObservationID cus = ID lo)))"
proof (intro conjI impI)
  assume complete: "list_all faceComplete faces"
  let ?cs = "map (\<lambda>f. the (newCustomer lineObservationID f)) faces"
  have run: "appendCustomers lineObservationID [] faces = Returns ?cs"
    using appendCustomers_total [OF complete, of lineObservationID "[]"] by simp
  have "\<forall>cus \<in> set ?cs. LineObservationID cus = lineObservationID"
  proof
    fix cus assume "cus \<in> set ?cs"
    then obtain f where f: "f \<in> set faces" and cus: "cus = the (newCustomer lineObservationID f)"
      by auto
    from f complete have "faceComplete f" by (simp add: list_all_iff)
    then have "newCustomer lineObservationID f \<noteq> None"
      by (rule newCustomer_complete)
    with cus show "LineObservationID cus = lineObservationID"
      using newCustomer_id [of lineObservationID f] by auto
  qed
  with run show "\<exists>customers. appendCustomers lineObservationID [] faces = Returns customers \<and>
         length customers = length faces \<and>
         (\<forall>cus \<in> set customers. LineObservationID cus = lineObservationID)"
    by simp
next
  assume "AnalyzeLineImage w e = (out, tr) \<and> PutMetas metas \<in> set tr"
  then have run: "AnalyzeLineImage w e = (out, tr)" and put: "PutMetas metas \<in> set tr"
    by simp_all
  from Analyze_reaches_PutMetas [OF run put]
  obtain shop obsAt bytes labels faceDetails n lo where
    reader: "newReader w (Bucket e) (ObjectName e) = Inr (Inr bytes)" and
    faces: "detectFaces w bytes = Inr faceDetails" and
    loop: "appendCustomers (newXid w) [] faceDetails = Returns metas" and
    lo: "lo = \<lparr>ID = newXid w, ShopID = shop, WaitingPeopleNum = n,
                ObservedAt = obsAt, CreatedAt = Clock (clock w)\<rparr>" and
    tr: "tr = pipeline lo metas"
    by blast
  from appendCustomers_acc [OF loop]
  have len: "length metas = length faceDetails"
    and each: "metas = map (\<lambda>f. the (newCustomer (newXid w) f)) faceDetails"
    and some: "\<forall>f \<in> set faceDetails. newCustomer (newXid w) f \<noteq> None"
    by auto
  have ids: "\<forall>cus \<in> set metas. LineObservationID cus = ID lo"
  proof
    fix cus assume "cus \<in> set metas"
    with each obtain f where f: "f \<in> set faceDetails"
      and cus: "cus = the (newCustomer (newXid w) f)" by auto
    from f some have "newCustomer (newXid w) f \<noteq> None" by simp
    with cus have "LineObservationID cus = newXid w"
      using newCustomer_id [of "newXid w" f] by auto
    with lo show "LineObservationID cus = ID lo" by simp
  qed
  have "PutObservation [lo] \<in> set tr" by (simp add: tr pipeline_def)
  moreover have "ID lo = newXid w" by (simp add: lo)
  ultimately show "\<exists>lo bytes faceDetails.
         PutObservation [lo] \<in> set tr \<and> ID lo = newXid w \<and>
         newReader w (Bucket e) (ObjectName e) = Inr (Inr bytes) \<and>
         detectFaces w bytes = Inr faceDetails \<and>
         length metas = length faceDetails \<and>
         (\<forall>cus \<in> set metas. LineObservationID cus = ID lo)"
    using reader faces len ids by blast
qed

theorem metas_reference_their_observation_witness:
  "list_all faceComplete [exampleFace, exampleFace] \<and>
   (\<exists>customers. appendCustomers ''9m4e2mr0ui3e8a215n4g'' [] [exampleFace, exampleFace] =
        Returns customers \<and> length customers = 2) \<and>
   AnalyzeLineImage exampleWorld exampleEvent =
     (Returns None, pipeline exampleObservation [exampleMeta]) \<and>
   PutMetas [exampleMeta] \<in> set (pipeline exampleObservation [exampleMeta]) \<and>
   (\<exists>lo. PutObservation [lo] \<in> set (pipeline exampleObservation [exampleMeta]) \<and>
         ID lo = ''9m4e2mr0ui3e8a215n4g'' \<and> LineObservationID exampleMeta = ID lo)"
proof -
  have complete: "list_all faceComplete [exampleFace, exampleFace]"
    by (simp add: faceComplete_def exampleFace_def)
  have put: "PutMetas [exampleMeta] \<in> set (pipeline exampleObservation [exampleMeta])"
    by (simp add: pipeline_def)
  note inst = metas_reference_their_observation
    [of "[exampleFace, exampleFace]" "''9m4e2mr0ui3e8a215n4g''" exampleWorld exampleEvent
        "Returns None" "pipeline exampleObservation [exampleMeta]" "[exampleMeta]"]
  from inst complete have 1:
    "\<exists>customers. appendCustomers ''9m4e2mr0ui3e8a215n4g'' [] [exampleFace, exampleFace] =
        Returns customers \<and> length customers = 2"
    by auto
  from inst example_run put obtain lo where
    "PutObservation [lo] \<in> set (pipeline exampleObservation [exampleMeta])"
    "ID lo = newXid exampleWorld"
    "\<forall>cus \<in> set [exampleMeta]. LineObservationID cus = ID lo"
    by blast
  then have 2: "\<exists>lo. PutObservation [lo] \<in> set (pipeline exampleObservation [exampleMeta]) \<and>
         ID lo = ''9m4e2mr0ui3e8a215n4g'' \<and> LineObservationID exampleMeta = ID lo"
    by (auto simp: exampleWorld_def)
  from complete 1 example_run put 2 show ?thesis by blast
qed

subsection \<open>Writing to the store\<close>



text \<open>
  C6. An invocation whose face list is empty and whose earlier steps succeed returns no
  error: it writes the observation, hands the empty collection to the second \<open>Put\<close>,
  which is a no-op success for zero rows, and ends there. (\<open>Put\<close> is the store client's;
  its treatment of an empty collection is taken from the specification.)
\<close>

theorem empty_face_list_persists:
  assumes "newGcsClient w = None" and "getenv w ''GCP_PROJECT_ID'' \<noteq> []"
    and "newBqClient w (getenv w ''GCP_PROJECT_ID'') = None"
    and "getMetaFromObjName (ObjectName e) = Returns (shop, obsAt, None)"
    and "newReader w (Bucket e) (ObjectName e) = Inr (Inr bytes)"
    and "newSession w = None"
    and "detectLabels w bytes = Inr labels" and "countPeople 0 labels = Returns n"
    and "detectFaces w bytes = Inr []"
    and "lo = \<lparr>ID = newXid w, ShopID = shop, WaitingPeopleNum = n,
                 ObservedAt = obsAt, CreatedAt = Clock (clock w)\<rparr>"
    and "insertObservations w [lo] = None"
  shows "AnalyzeLineImage w e = (Returns None, pipeline lo []) \<and>
         last (pipeline lo []) = PutMetas [] \<and>
         Put (insertMetas w) [] = None"
proof -
  have "appendCustomers (newXid w) [] [] = Returns []" by simp
  moreover have "Put (insertObservations w) [lo] = None"
    using assms(11) by (simp add: Put_def)
  ultimately have "AnalyzeLineImage w e =
           (case Put (insertMetas w) [] of
              Some err \<Rightarrow>
                Returns (Some (Wrap err ''load analyzed lineObservation data to bq faile''))
            | None \<Rightarrow> Returns None,
            pipeline lo [])"
    using Analyze_full_run [OF assms(1-9) _ assms(10)] by blast
  then show ?thesis by (simp add: Put_def pipeline_def)
qed

theorem empty_face_list_persists_witness:
  "AnalyzeLineImage
     (exampleWorld\<lparr>detectFaces := (\<lambda>bytes. Inr []),
                   insertMetas := (\<lambda>rows. Some (ExternalError ''quota exceeded''))\<rparr>)
     exampleEvent =
     (Returns None, pipeline exampleObservation []) \<and>
   last (pipeline exampleObservation []) = PutMetas []"
proof -
  let ?w = "exampleWorld\<lparr>detectFaces := (\<lambda>bytes. Inr []),
                   insertMetas := (\<lambda>rows. Some (ExternalError ''quota exceeded''))\<rparr>"
  have name: "getMetaFromObjName (ObjectName exampleEvent) =
      Returns (''shop42'', UnixLocal 1700000000, None)"
    by code_simp
  have "AnalyzeLineImage ?w exampleEvent = (Returns None, pipeline exampleObservation []) \<and>
         last (pipeline exampleObservation []) = PutMetas [] \<and>
         Put (insertMetas ?w) [] = None"
    by (rule empty_face_list_persists
          [where shop = "''shop42''" and obsAt = "UnixLocal 1700000000"
             and bytes = "''jpeg bytes''"
             and labels = "[mkLabel ''Person'' 0.9 [Instance 0, Instance 1]]" and n = 2])
       (simp_all add: exampleWorld_def exampleObservation_def name mkLabel_def)
  then show ?thesis by simp
qed

subsection \<open>Failing to open the object\<close>

text \<open>
  C7. If the object cannot be opened for reading, the invocation does not succeed and
  takes no detection step (session, reading the bytes, labels, faces) and no store
  write; once it has tried to open the object, that is its last step and it returns the
  error of the object source wrapped as \<open>new <name> reader failed\<close>.
\<close>

theorem reader_failure_aborts:
  assumes "newReader w (Bucket e) (ObjectName e) = Inl err"
    and "AnalyzeLineImage w e = (out, tr)"
  shows "out \<noteq> Returns None \<and>
         (\<forall>s \<in> set tr. \<not> isDetection s \<and> \<not> isStoreWrite s) \<and>
         (OpenReader \<in> set tr \<longrightarrow>
            out = Returns (Some (Wrap err (''new '' @ ObjectName e @ '' reader failed''))) \<and>
            last tr = OpenReader)"
  using assms unfolding run_defs
  by (auto split: run_splits)

theorem reader_failure_aborts_witness:
  "newReader unreadableWorld (Bucket exampleEvent) (ObjectName exampleEvent) =
     Inl (ExternalError ''object does not exist'') \<and>
   AnalyzeLineImage unreadableWorld exampleEvent =
     (Returns (Some (Wrap (ExternalError ''object does not exist'')
                      ''new shop42_1700000000.jpg reader failed'')),
      [AcquireGcsClient, ReadEnv ''GCP_PROJECT_ID'', AcquireBqClient, GenerateID, ParseMeta,
       OpenReader]) \<and>
   OpenReader \<in> set [AcquireGcsClient, ReadEnv ''GCP_PROJECT_ID'', AcquireBqClient, GenerateID,
       ParseMeta, OpenReader] \<and>
   list_all (\<lambda>s. \<not> isDetection s \<and> \<not> isStoreWrite s)
     [AcquireGcsClient, ReadEnv ''GCP_PROJECT_ID'', AcquireBqClient, GenerateID,
      ParseMeta, OpenReader]"
proof -
  have reader: "newReader unreadableWorld (Bucket exampleEvent) (ObjectName exampleEvent) =
     Inl (ExternalError ''object does not exist'')"
    by (simp add: unreadableWorld_def)
  from reader_failure_aborts [OF reader example_run_unreadable] reader example_run_unreadable
  show ?thesis by simp
qed

subsection \<open>The order of the steps\<close>

text \<open>
  C8. Every invocation takes its steps in this order: acquire the object-source client,
  read the configuration and acquire the store client, generate the identifier, parse
  the object name, open the object, make the vision session, read the bytes, detect
  labels, detect faces, write the observation, write the metas. Every step before the
  last one taken has succeeded, and the invocation goes on until a step fails or the
  last stage is done: it returns no error exactly when all stages succeeded. Each
  step's failure is returned at once, wrapped with the label of the failed stage, and
  no later step is taken. A step that ends the process or panics ends the invocation
  in the same way.
\<close>

theorem steps_in_order:
  assumes "AnalyzeLineImage w e = (out, tr)"
  shows "runsInOrder tr stageOrder \<and> tr \<noteq> [] \<and>
         (\<forall>s \<in> set (butlast tr). stepOutcome w e s = Returns None) \<and>
         (\<forall>s \<in> set tr. \<forall>cause. stepOutcome w e s = Returns (Some cause) \<longrightarrow>
            s = last tr \<and>
            out = Returns (Some (Wrap cause (stageLabel (ObjectName e) s)))) \<and>
         (case stepOutcome w e (last tr) of
            Returns None \<Rightarrow> out = Returns None \<and> length tr = length stageOrder
          | Returns (Some cause) \<Rightarrow>
              out = Returns (Some (Wrap cause (stageLabel (ObjectName e) (last tr))))
          | Exits m \<Rightarrow> out = Exits m
          | Panics m \<Rightarrow> out = Panics m)"
  using AnalyzeLineImage_cases [OF assms]
  by (elim disjE exE conjE) (simp_all add: stageOrder_def mustEnv_def)

theorem steps_in_order_witness:
  "AnalyzeLineImage exampleWorld exampleEvent =
     (Returns None, pipeline exampleObservation [exampleMeta]) \<and>
   runsInOrder (pipeline exampleObservation [exampleMeta]) stageOrder \<and>
   list_all (\<lambda>s. stepOutcome exampleWorld exampleEvent s = Returns None)
     (pipeline exampleObservation [exampleMeta]) \<and>
   length (pipeline exampleObservation [exampleMeta]) = length stageOrder \<and>
   AnalyzeLineImage unreadableWorld exampleEvent =
     (Returns (Some (Wrap (ExternalError ''object does not exist'')
                      ''new shop42_1700000000.jpg reader failed'')),
      [AcquireGcsClient, ReadEnv ''GCP_PROJECT_ID'', AcquireBqClient, GenerateID, ParseMeta,
       OpenReader]) \<and>
   stepOutcome unreadableWorld exampleEvent OpenReader =
     Returns (Some (ExternalError ''object does not exist'')) \<and>
   stageLabel (ObjectName exampleEvent) OpenReader = ''new shop42_1700000000.jpg reader failed''"
proof -
  have order: "runsInOrder (pipeline exampleObservation [exampleMeta]) stageOrder"
    using steps_in_order [OF example_run] by (rule conjunct1)
  have taken: "runsInOrder
      [AcquireGcsClient, ReadEnv ''GCP_PROJECT_ID'', AcquireBqClient, GenerateID, ParseMeta,
       OpenReader] stageOrder"
    using steps_in_order [OF example_run_unreadable] by (rule conjunct1)
  have succeeded: "list_all (\<lambda>s. stepOutcome exampleWorld exampleEvent s = Returns None)
     (pipeline exampleObservation [exampleMeta])"
    by code_simp
  have len: "length (pipeline exampleObservation [exampleMeta]) = length stageOrder"
    by (simp add: pipeline_def stageOrder_def)
  have failed: "stepOutcome unreadableWorld exampleEvent OpenReader =
     Returns (Some (ExternalError ''object does not exist''))"
    by (simp add: unreadableWorld_def)
  have label: "stageLabel (ObjectName exampleEvent) OpenReader =
      ''new shop42_1700000000.jpg reader failed''"
    by (simp add: exampleEvent_def)
  from example_run order succeeded len example_run_unreadable taken failed label
  show ?thesis by simp
qed

text \<open>
  The specification puts reading the object before parsing its name, and generating the
  identifier after both. For a name that does not parse and an object that cannot be
  opened, the invocation returns the error of the parser and never opens the object,
  and it has generated the identifier before.
\<close>

theorem name_parsed_before_object_read:
  "AnalyzeLineImage unreadableWorld (exampleEvent\<lparr>ObjectName := ''shop42_x.jpg''\<rparr>) =
     (Returns (Some (Wrap (NumError ''ParseInt'' ''x'' ErrSyntax)
                      ''get lineObservation meta from shop42_x.jpg'')),
      [AcquireGcsClient, ReadEnv ''GCP_PROJECT_ID'', AcquireBqClient, GenerateID, ParseMeta])"
  by code_simp

subsection \<open>Missing configuration\<close>

text \<open>
  C9. When the variable \<open>GCP_PROJECT_ID\<close> is empty or unset, an invocation that has
  acquired the object-source client reads the variable and ends the process with
  \<open>log.Fatal\<close>; the absence is never returned as an error. An invocation that fails to
  acquire the object-source client returns that error and does not notice the absence.
\<close>

theorem missing_config_ends_process:
  assumes "getenv w ''GCP_PROJECT_ID'' = []"
  shows "(newGcsClient w = None \<longrightarrow>
            AnalyzeLineImage w e =
              (Exits ''env variable with key=GCP_PROJECT_ID is not found'',
               [AcquireGcsClient, ReadEnv ''GCP_PROJECT_ID''])) \<and>
         (\<forall>err. newGcsClient w = Some err \<longrightarrow>
            AnalyzeLineImage w e =
              (Returns (Some (Wrap err ''init gcs client'')), [AcquireGcsClient]))"
  using assms unfolding run_defs by simp

theorem missing_config_ends_process_witness:
  "getenv unconfiguredWorld ''GCP_PROJECT_ID'' = [] \<and>
   newGcsClient unconfiguredWorld = None \<and>
   AnalyzeLineImage unconfiguredWorld exampleEvent =
     (Exits ''env variable with key=GCP_PROJECT_ID is not found'',
      [AcquireGcsClient, ReadEnv ''GCP_PROJECT_ID'']) \<and>
   newGcsClient (unconfiguredWorld\<lparr>newGcsClient := Some (ExternalError ''no credentials'')\<rparr>) =
     Some (ExternalError ''no credentials'') \<and>
   AnalyzeLineImage (unconfiguredWorld\<lparr>newGcsClient := Some (ExternalError ''no credentials'')\<rparr>)
     exampleEvent =
     (Returns (Some (Wrap (ExternalError ''no credentials'') ''init gcs client'')),
      [AcquireGcsClient])"
proof -
  have env: "getenv unconfiguredWorld ''GCP_PROJECT_ID'' = []"
    by (simp add: unconfiguredWorld_def)
  have gcs: "newGcsClient unconfiguredWorld = None"
    by (simp add: unconfiguredWorld_def exampleWorld_def)
  have env': "getenv (unconfiguredWorld\<lparr>newGcsClient := Some (ExternalError ''no credentials'')\<rparr>)
      ''GCP_PROJECT_ID'' = []"
    by (simp add: unconfiguredWorld_def)
  from missing_config_ends_process [OF env, of exampleEvent] gcs
    missing_config_ends_process [OF env', of exampleEvent] env
  show ?thesis by simp
qed

text \<open>
  The specification places the detection at the start of the process. Here the
  configuration is missing, and an invocation runs and returns an ordinary error.
\<close>

theorem missing_config_unnoticed:
  "getenv (unconfiguredWorld\<lparr>newGcsClient := Some (ExternalError ''no credentials'')\<rparr>)
     ''GCP_PROJECT_ID'' = [] \<and>
   AnalyzeLineImage (unconfiguredWorld\<lparr>newGcsClient := Some (ExternalError ''no credentials'')\<rparr>)
     exampleEvent =
     (Returns (Some (Wrap (ExternalError ''no credentials'') ''init gcs client'')),
      [AcquireGcsClient])"
  by code_simp

end
